(* ===== verification/PyStr.thy ===== *)
theory PyStr
  imports Prelude
begin

text \<open>
  The Python string built-ins the classifier and the composer call, on strings of
  Latin-1 code points (an Isabelle \<open>char\<close> is one code point 0..255):
  \<open>str.isspace\<close> on one character, \<open>str.lower\<close>, \<open>str.strip()\<close>,
  \<open>str.split()\<close> with no argument, the substring test \<open>needle in haystack\<close>,
  \<open>str.startswith\<close> and \<open>str.title\<close>. Each follows CPython's definition on
  this character range (\<open>title\<close> on ASCII text, the only text it is applied to).
  The lemmas relate them to the library: \<open>in\<close> is \<open>sublist\<close>, \<open>lower\<close> is
  idempotent and keeps whitespace, \<open>split\<close> yields non-empty whitespace-free words
  and inverts a join with one space, and \<open>strip\<close> is the identity exactly on strings
  whose ends are not whitespace.
\<close>

section \<open>Characters\<close>

definition py_isspace :: "char \<Rightarrow> bool" where
  \<comment> \<open>\<open>str.isspace\<close> for code points below 256: tab to carriage return,
      the four information separators, space, NEL and no-break space\<close>
  "py_isspace c \<longleftrightarrow>
     (let n = (of_char c :: nat) in
      (9 \<le> n \<and> n \<le> 13) \<or> (28 \<le> n \<and> n \<le> 32) \<or> n = 133 \<or> n = 160)"

definition py_lower_char :: "char \<Rightarrow> char" where
  \<comment> \<open>\<open>str.lower\<close>: A..Z and the Latin-1 capitals (but the multiplication sign)\<close>
  "py_lower_char c =
     (let n = (of_char c :: nat) in
      if (65 \<le> n \<and> n \<le> 90) \<or> (192 \<le> n \<and> n \<le> 222 \<and> n \<noteq> 215)
      then char_of (n + 32) else c)"

definition py_upper_char :: "char \<Rightarrow> char" where
  "py_upper_char c =
     (let n = (of_char c :: nat) in if 97 \<le> n \<and> n \<le> 122 then char_of (n - 32) else c)"

definition py_is_cased :: "char \<Rightarrow> bool" where
  "py_is_cased c \<longleftrightarrow>
     (let n = (of_char c :: nat) in (65 \<le> n \<and> n \<le> 90) \<or> (97 \<le> n \<and> n \<le> 122))"

section \<open>Strings\<close>

definition str_lower :: "string \<Rightarrow> string" where
  "str_lower s = map py_lower_char s"

definition py_strip :: "string \<Rightarrow> string" where
  "py_strip s = rev (dropWhile py_isspace (rev (dropWhile py_isspace s)))"

text \<open>
  CPython's \<open>split()\<close>: skip a run of whitespace, take the run of non-whitespace
  that follows as one word, repeat until the string is used up.
\<close>

function py_split :: "string \<Rightarrow> string list" where
  "py_split s =
     (let t = dropWhile py_isspace s in
      if t = [] then []
      else takeWhile (\<lambda>c. \<not> py_isspace c) t # py_split (dropWhile (\<lambda>c. \<not> py_isspace c) t))"
  by pat_completeness auto

termination py_split
proof (relation "measure length")
  fix s t
  assume t: "t = dropWhile py_isspace s" and ne: "t \<noteq> []"
  then have "\<not> py_isspace (hd t)" by (simp add: hd_dropWhile)
  with ne have "length (dropWhile (\<lambda>c. \<not> py_isspace c) t) < length t"
    by (cases t) (auto intro: le_imp_less_Suc length_dropWhile_le)
  also have "length t \<le> length s" using t by (simp add: length_dropWhile_le)
  finally show "(dropWhile (\<lambda>c. \<not> py_isspace c) t, s) \<in> measure length" by simp
qed simp

declare py_split.simps [simp del]

fun starts_with :: "string \<Rightarrow> string \<Rightarrow> bool" where
  "starts_with [] s = True"
| "starts_with (c # cs) [] = False"
| "starts_with (c # cs) (d # ds) = (c = d \<and> starts_with cs ds)"

text \<open>\<open>needle in haystack\<close> on strings: a match at some position, tried left to right.\<close>

fun py_in :: "string \<Rightarrow> string \<Rightarrow> bool" where
  "py_in n [] = (n = [])"
| "py_in n (c # cs) = (starts_with n (c # cs) \<or> py_in n cs)"

fun title_from :: "bool \<Rightarrow> string \<Rightarrow> string" where
  "title_from prev [] = []"
| "title_from prev (c # cs) =
     (if prev then py_lower_char c else py_upper_char c) # title_from (py_is_cased c) cs"

definition py_title :: "string \<Rightarrow> string" where
  "py_title s = title_from False s"

text \<open>A text the program returns as it is: non-empty and unchanged by \<open>strip()\<close>.\<close>

definition is_trimmed :: "string \<Rightarrow> bool" where
  "is_trimmed s \<longleftrightarrow> s \<noteq> [] \<and> py_strip s = s"

section \<open>Lemmas\<close>

text \<open>The facts that evaluate the character functions on concrete characters.\<close>

lemmas py_char_simps =
  py_isspace_def py_lower_char_def py_upper_char_def py_is_cased_def char_of_eq_iff Let_def

lemma starts_with_prefix [simp]: "starts_with n s \<longleftrightarrow> prefix n s"
  by (induction n s rule: starts_with.induct) auto

lemma py_in_sublist: "py_in n s \<longleftrightarrow> sublist n s"
  by (induction s) (auto simp: sublist_Cons_right)

lemma py_lower_char_idem [simp]: "py_lower_char (py_lower_char c) = py_lower_char c"
  by (simp add: py_lower_char_def Let_def)

lemma py_isspace_lower [simp]: "py_isspace (py_lower_char c) \<longleftrightarrow> py_isspace c"
  by (auto simp: py_lower_char_def py_isspace_def Let_def)

lemma str_lower_idem [simp]: "str_lower (str_lower s) = str_lower s"
  by (simp add: str_lower_def)

lemma sublist_across_sep:
  assumes "n \<noteq> []" "\<forall>x\<in>set n. \<not> P x" "P c"
  shows "sublist n (xs @ c # ys) \<longleftrightarrow> sublist n xs \<or> sublist n ys"
proof -
  have "\<not> prefix n (c # ys)" using assms by (cases n) auto
  moreover have "sublist n xs" if "n = a @ b" "suffix a xs" "prefix b (c # ys)" for a b
  proof (cases b)
    case Nil
    with that show ?thesis by (simp add: suffix_imp_sublist)
  next
    case (Cons d bs)
    with that assms show ?thesis by auto
  qed
  ultimately show ?thesis
    by (auto simp: sublist_append sublist_Cons_right)
qed

lemma sublist_all_P_prefix:
  assumes "n \<noteq> []" "\<forall>x\<in>set n. \<not> P x" "\<forall>x\<in>set xs. P x"
  shows "sublist n (xs @ ys) \<longleftrightarrow> sublist n ys"
  using assms(3)
proof (induction xs)
  case Nil
  then show ?case by simp
next
  case (Cons x xs)
  have "sublist n (x # (xs @ ys)) \<longleftrightarrow> sublist n (xs @ ys)"
    using sublist_across_sep [of n P x "[]" "xs @ ys"] assms(1,2) Cons.prems by simp
  with Cons.IH Cons.prems show ?case by simp
qed

lemma py_isspace_space [simp]: "py_isspace (CHR '' '')"
  by (simp add: py_isspace_def)

lemma py_split_unfold:
  "py_split s =
     (if dropWhile py_isspace s = [] then []
      else takeWhile (\<lambda>c. \<not> py_isspace c) (dropWhile py_isspace s)
        # py_split (dropWhile (\<lambda>c. \<not> py_isspace c) (dropWhile py_isspace s)))"
  by (rule trans [OF py_split.simps]) (simp only: Let_def)

lemma py_split_empty: "dropWhile py_isspace s = [] \<Longrightarrow> py_split s = []"
  by (subst py_split_unfold) simp

lemma py_split_step:
  "dropWhile py_isspace s \<noteq> [] \<Longrightarrow>
   py_split s = takeWhile (\<lambda>c. \<not> py_isspace c) (dropWhile py_isspace s)
     # py_split (dropWhile (\<lambda>c. \<not> py_isspace c) (dropWhile py_isspace s))"
  by (subst py_split_unfold) simp

lemma py_split_Nil [simp]: "py_split [] = []"
  by (rule py_split_empty) simp

lemma py_split_words:
  "w \<in> set (py_split s) \<Longrightarrow> w \<noteq> [] \<and> (\<forall>c\<in>set w. \<not> py_isspace c)"
proof (induction s rule: py_split.induct)
  case (1 s)
  let ?t = "dropWhile py_isspace s"
  show ?case
  proof (cases "?t = []")
    case True
    with "1.prems" show ?thesis by (simp add: py_split_empty)
  next
    case False
    then have "\<not> py_isspace (hd ?t)" by (rule hd_dropWhile)
    with False have ne: "takeWhile (\<lambda>c. \<not> py_isspace c) ?t \<noteq> []"
      by (cases ?t) auto
    have eq: "py_split s = takeWhile (\<lambda>c. \<not> py_isspace c) ?t
        # py_split (dropWhile (\<lambda>c. \<not> py_isspace c) ?t)"
      using False by (rule py_split_step)
    from "1.prems" eq have "w = takeWhile (\<lambda>c. \<not> py_isspace c) ?t \<or>
        w \<in> set (py_split (dropWhile (\<lambda>c. \<not> py_isspace c) ?t))"
      by (metis set_ConsD)
    then show ?thesis
    proof
      assume "w = takeWhile (\<lambda>c. \<not> py_isspace c) ?t"
      with ne show ?thesis by (auto dest: set_takeWhileD)
    next
      assume "w \<in> set (py_split (dropWhile (\<lambda>c. \<not> py_isspace c) ?t))"
      then show ?thesis by (rule "1.IH" [OF refl False])
    qed
  qed
qed

lemma py_split_space_Cons: "py_isspace c \<Longrightarrow> py_split (c # s) = py_split s"
  by (subst (1 2) py_split_unfold) simp

lemma py_split_word_append:
  assumes "w \<noteq> []" "\<forall>c\<in>set w. \<not> py_isspace c" "rest = [] \<or> py_isspace (hd rest)"
  shows "py_split (w @ rest) = w # py_split rest"
proof -
  have d: "dropWhile py_isspace (w @ rest) = w @ rest"
    using assms(1,2) by (cases w) auto
  have tw: "takeWhile (\<lambda>c. \<not> py_isspace c) (w @ rest) = w"
    using assms(2,3) by (cases rest) (auto simp: takeWhile_append2)
  have dw: "dropWhile (\<lambda>c. \<not> py_isspace c) (w @ rest) = rest"
    using assms(2,3) by (cases rest) (auto simp: dropWhile_append2)
  show ?thesis using assms(1)
    by (simp add: py_split_step d tw dw)
qed

lemma py_split_join_space:
  "\<forall>w\<in>set ws. w \<noteq> [] \<and> (\<forall>c\<in>set w. \<not> py_isspace c) \<Longrightarrow>
   py_split (join_with '' '' ws) = ws"
proof (induction "'' ''" ws rule: join_with.induct)
  case 1
  then show ?case by simp
next
  case (2 x)
  then have "py_split (x @ []) = x # py_split []"
    by (intro py_split_word_append) auto
  then show ?case by simp
next
  case (3 x y ys)
  then have "py_split (x @ '' '' @ join_with '' '' (y # ys)) = x # py_split ('' '' @ join_with '' '' (y # ys))"
    by (intro py_split_word_append) auto
  with 3 show ?case by (simp add: py_split_space_Cons)
qed

lemma py_in_split:
  assumes "n \<noteq> []" "\<forall>c\<in>set n. \<not> py_isspace c"
  shows "(\<exists>w\<in>set (py_split s). py_in n w) \<longleftrightarrow> py_in n s"
proof (induction s rule: py_split.induct)
  case (1 s)
  let ?t = "dropWhile py_isspace s"
  let ?w = "takeWhile (\<lambda>c. \<not> py_isspace c) ?t"
  let ?r = "dropWhile (\<lambda>c. \<not> py_isspace c) ?t"
  have s_eq: "s = takeWhile py_isspace s @ ?t" by simp
  have lead: "sublist n s \<longleftrightarrow> sublist n ?t"
    by (subst s_eq, rule sublist_all_P_prefix) (use assms in \<open>auto dest: set_takeWhileD\<close>)
  show ?case
  proof (cases "?t = []")
    case True
    with lead assms(1) show ?thesis by (simp add: py_split_empty py_in_sublist)
  next
    case False
    have t_eq: "?t = ?w @ ?r" by simp
    have r_cases: "?r = [] \<or> py_isspace (hd ?r)"
      using hd_dropWhile [of "\<lambda>c. \<not> py_isspace c" ?t] by auto
    have mid: "sublist n ?t \<longleftrightarrow> sublist n ?w \<or> sublist n ?r"
    proof (cases ?r)
      case Nil
      then show ?thesis using t_eq assms(1) by (metis append.right_neutral sublist_Nil_right)
    next
      case (Cons c r')
      with r_cases have sp: "py_isspace c" by simp
      have "sublist n ?r \<longleftrightarrow> sublist n r'"
        using sublist_all_P_prefix [of n py_isspace "[c]" r'] assms sp Cons by simp
      moreover have "sublist n (?w @ c # r') \<longleftrightarrow> sublist n ?w \<or> sublist n r'"
        using assms sp by (rule sublist_across_sep)
      ultimately show ?thesis using t_eq Cons by simp
    qed
    have eq: "py_split s = ?w # py_split ?r"
      using False by (rule py_split_step)
    have "(\<exists>w\<in>set (py_split s). py_in n w) \<longleftrightarrow> py_in n ?w \<or> (\<exists>w\<in>set (py_split ?r). py_in n w)"
      by (simp only: eq list.set bex_simps(5) insert_iff)
    also have "\<dots> \<longleftrightarrow> sublist n ?w \<or> sublist n ?r"
      using "1.IH" [OF refl False] by (simp add: py_in_sublist)
    finally show ?thesis using mid lead by (simp add: py_in_sublist)
  qed
qed

lemma py_in_join_space:
  assumes "n \<noteq> []" "\<forall>c\<in>set n. \<not> py_isspace c"
  shows "py_in n (join_with '' '' ws) \<longleftrightarrow> (\<exists>w\<in>set ws. py_in n w)"
proof (induction "'' ''" ws rule: join_with.induct)
  case (3 x y ys)
  have j: "join_with '' '' (x # y # ys) = x @ CHR '' '' # join_with '' '' (y # ys)"
    by simp
  have "py_in n (join_with '' '' (x # y # ys)) \<longleftrightarrow>
        sublist n x \<or> sublist n (join_with '' '' (y # ys))"
    unfolding j py_in_sublist using assms by (intro sublist_across_sep [where P = py_isspace]) auto
  also have "\<dots> \<longleftrightarrow> py_in n x \<or> (\<exists>w\<in>set (y # ys). py_in n w)"
    using 3 by (simp add: py_in_sublist)
  finally show ?case by simp
next
  case 1
  show ?case using assms(1) by simp
next
  case (2 x)
  show ?case by simp
qed

lemma str_lower_Nil_iff [simp]: "str_lower s = [] \<longleftrightarrow> s = []"
  by (simp add: str_lower_def)

lemma py_split_lower: "py_split (str_lower s) = map str_lower (py_split s)"
proof (induction s rule: py_split.induct)
  case (1 s)
  have c: "py_isspace \<circ> py_lower_char = py_isspace" by (simp add: fun_eq_iff)
  have c2: "(\<lambda>c. \<not> py_isspace c) \<circ> py_lower_char = (\<lambda>c. \<not> py_isspace c)"
    by (simp add: fun_eq_iff)
  let ?t = "dropWhile py_isspace s"
  have dl: "dropWhile py_isspace (str_lower s) = str_lower ?t"
    by (simp add: str_lower_def dropWhile_map c)
  show ?case
  proof (cases "?t = []")
    case True
    with dl show ?thesis by (simp add: py_split_empty str_lower_def)
  next
    case False
    have eq: "py_split s = takeWhile (\<lambda>c. \<not> py_isspace c) ?t
        # py_split (dropWhile (\<lambda>c. \<not> py_isspace c) ?t)"
      using False by (rule py_split_step)
    have "dropWhile py_isspace (str_lower s) \<noteq> []" using False dl by simp
    then have eq2: "py_split (str_lower s) = takeWhile (\<lambda>c. \<not> py_isspace c) (str_lower ?t)
        # py_split (dropWhile (\<lambda>c. \<not> py_isspace c) (str_lower ?t))"
      unfolding dl [symmetric] by (rule py_split_step)
    have tw: "takeWhile (\<lambda>c. \<not> py_isspace c) (str_lower ?t)
        = str_lower (takeWhile (\<lambda>c. \<not> py_isspace c) ?t)"
      by (simp add: str_lower_def takeWhile_map c2)
    have dw: "dropWhile (\<lambda>c. \<not> py_isspace c) (str_lower ?t)
        = str_lower (dropWhile (\<lambda>c. \<not> py_isspace c) ?t)"
      by (simp add: str_lower_def dropWhile_map c2)
    show ?thesis
      by (simp only: eq eq2 tw dw "1.IH" [OF refl False] list.map)
  qed
qed

lemma all_set_dropWhile: "(\<forall>x\<in>set (dropWhile P s). P x) \<longleftrightarrow> (\<forall>x\<in>set s. P x)"
  by (induction s) auto

lemma py_strip_Nil_iff: "py_strip s = [] \<longleftrightarrow> (\<forall>c\<in>set s. py_isspace c)"
  by (simp add: py_strip_def all_set_dropWhile)

lemma str_lower_strip: "str_lower (py_strip s) = py_strip (str_lower s)"
proof -
  have c: "py_isspace \<circ> py_lower_char = py_isspace" by (simp add: fun_eq_iff)
  show ?thesis by (simp add: py_strip_def str_lower_def dropWhile_map rev_map c)
qed

lemma py_strip_id_iff:
  "py_strip s = s \<longleftrightarrow> s = [] \<or> (\<not> py_isspace (hd s) \<and> \<not> py_isspace (last s))"
proof
  assume eq: "py_strip s = s"
  show "s = [] \<or> (\<not> py_isspace (hd s) \<and> \<not> py_isspace (last s))"
  proof (cases "s = []")
    case False
    have l1: "length (py_strip s) \<le> length (dropWhile py_isspace s)"
      using length_dropWhile_le [of py_isspace "rev (dropWhile py_isspace s)"]
      by (simp add: py_strip_def)
    with eq have "length s \<le> length (dropWhile py_isspace s)" by simp
    then have d1: "dropWhile py_isspace s = s"
      by (metis append_eq_append_conv append_Nil length_dropWhile_le order_antisym takeWhile_dropWhile_id)
    with eq have "rev (dropWhile py_isspace (rev s)) = s" by (simp add: py_strip_def)
    then have d2: "dropWhile py_isspace (rev s) = rev s" by (metis rev_rev_ident)
    from False d1 have "\<not> py_isspace (hd s)" by (metis hd_dropWhile)
    moreover from False d2 have "\<not> py_isspace (hd (rev s))" by (metis hd_dropWhile Nil_is_rev_conv)
    ultimately show ?thesis by (simp add: hd_rev)
  qed simp
next
  assume "s = [] \<or> (\<not> py_isspace (hd s) \<and> \<not> py_isspace (last s))"
  then show "py_strip s = s"
  proof
    assume h: "\<not> py_isspace (hd s) \<and> \<not> py_isspace (last s)"
    show ?thesis
    proof (cases s rule: rev_cases)
      case (snoc ys y)
      with h show ?thesis by (cases ys) (auto simp: py_strip_def)
    qed (simp add: py_strip_def)
  qed (simp add: py_strip_def)
qed

lemma py_split_concat: "concat (py_split s) = filter (\<lambda>c. \<not> py_isspace c) s"
proof (induction s rule: py_split.induct)
  case (1 s)
  let ?t = "dropWhile py_isspace s"
  have fs: "filter (\<lambda>c. \<not> py_isspace c) s = filter (\<lambda>c. \<not> py_isspace c) ?t"
  proof -
    have "s = takeWhile py_isspace s @ ?t" by simp
    then have "filter (\<lambda>c. \<not> py_isspace c) s =
               filter (\<lambda>c. \<not> py_isspace c) (takeWhile py_isspace s) @ filter (\<lambda>c. \<not> py_isspace c) ?t"
      by (metis filter_append)
    moreover have "filter (\<lambda>c. \<not> py_isspace c) (takeWhile py_isspace s) = []"
      by (auto simp: filter_empty_conv dest: set_takeWhileD)
    ultimately show ?thesis by simp
  qed
  show ?case
  proof (cases "?t = []")
    case True
    then show ?thesis using fs by (simp add: py_split_empty)
  next
    case False
    let ?w = "takeWhile (\<lambda>c. \<not> py_isspace c) ?t"
    let ?r = "dropWhile (\<lambda>c. \<not> py_isspace c) ?t"
    have eq: "py_split s = ?w # py_split ?r" using False by (rule py_split_step)
    have "filter (\<lambda>c. \<not> py_isspace c) ?t = ?w @ filter (\<lambda>c. \<not> py_isspace c) ?r"
    proof -
      have "?t = ?w @ ?r" by simp
      then have "filter (\<lambda>c. \<not> py_isspace c) ?t =
                 filter (\<lambda>c. \<not> py_isspace c) ?w @ filter (\<lambda>c. \<not> py_isspace c) ?r"
        by (metis filter_append)
      moreover have "filter (\<lambda>c. \<not> py_isspace c) ?w = ?w"
        by (auto simp: filter_id_conv dest: set_takeWhileD)
      ultimately show ?thesis by simp
    qed
    with eq fs "1.IH" [OF refl False] show ?thesis by simp
  qed
qed

lemma is_trimmed_ends:
  "is_trimmed s \<longleftrightarrow> s \<noteq> [] \<and> \<not> py_isspace (hd s) \<and> \<not> py_isspace (last s)"
  by (auto simp: is_trimmed_def py_strip_id_iff)

text \<open>
  The rules that compute the first and the last character of a text assembled from
  literals and variables without expanding the literals into the goal; used with
  \<open>simp only\<close> on the response templates.
\<close>

lemmas text_end_simps =
  last_appendR hd_append2 append_is_Nil_conv list.distinct(2) not_Cons_self2 simp_thms
  last_ConsR last.simps if_False if_True list.sel(1) is_trimmed_ends

end
