(* ===== verification/PyVal.thy ===== *)
theory PyVal
  imports PyStr
begin

text \<open>
  The knowledge context of the program is a \<open>Dict[str, Any]\<close> of nested
  dictionaries, lists and strings, and the response generator reads it with
  \<open>dict.get\<close>, \<open>dict.keys\<close>, indexing, truth tests, \<open>str.join\<close>,
  \<open>str.lower\<close> and f-string formatting. This theory models such values as the
  datatype \<open>pyval\<close> (JSON-like values with string keys; a dictionary is an
  association list in insertion order) and each of those operations with the exception
  Python raises when it is applied to a value of the wrong type. Formatting a value in
  an f-string is \<open>str()\<close>, which for a non-string is its \<open>repr()\<close>; both are
  written out as CPython prints them. \<open>max()\<close> with a key function is
  \<open>py_max_by\<close>: the first maximal element, \<open>ValueError\<close> on an empty sequence.
\<close>

datatype pyval =
    PNone
  | PBool bool
  | PInt int
  | PStr string
  | PList "pyval list"
  | PDict "(string \<times> pyval) list"

section \<open>\<open>repr()\<close> and \<open>str()\<close>\<close>

fun nat_digits :: "nat \<Rightarrow> string" where
  "nat_digits n =
     (if n < 10 then [char_of (48 + n)]
      else nat_digits (n div 10) @ [char_of (48 + n mod 10)])"

definition int_repr :: "int \<Rightarrow> string" where
  "int_repr i = (if i < 0 then CHR ''-'' # nat_digits (nat (- i)) else nat_digits (nat i))"

definition hex_digit :: "nat \<Rightarrow> char" where
  "hex_digit d = (if d < 10 then char_of (48 + d) else char_of (87 + d))"

text \<open>
  CPython's \<open>unicode_repr\<close>: single quotes, unless the string holds a single quote
  and no double quote; the chosen quote and the backslash are escaped, tab, newline and
  carriage return by name, other non-printable code points as \<open>\x\<close> and two hex
  digits (below 256: the C0 controls, DEL to no-break space, and the soft hyphen).
\<close>

definition repr_quote :: "string \<Rightarrow> char" where
  "repr_quote s = (if CHR 0x27 \<in> set s \<and> CHR 0x22 \<notin> set s then CHR 0x22 else CHR 0x27)"

definition repr_char :: "char \<Rightarrow> char \<Rightarrow> string" where
  "repr_char q c =
     (let n = (of_char c :: nat) in
      if c = q \<or> n = 92 then [CHR 0x5C, c]
      else if n = 9 then [CHR 0x5C, CHR ''t'']
      else if n = 10 then [CHR 0x5C, CHR ''n'']
      else if n = 13 then [CHR 0x5C, CHR ''r'']
      else if n < 32 \<or> (127 \<le> n \<and> n \<le> 160) \<or> n = 173
      then [CHR 0x5C, CHR ''x'', hex_digit (n div 16), hex_digit (n mod 16)]
      else [c])"

definition str_repr :: "string \<Rightarrow> string" where
  "str_repr s = (let q = repr_quote s in q # concat (map (repr_char q) s) @ [q])"

fun py_repr :: "pyval \<Rightarrow> string" where
  "py_repr PNone = ''None''"
| "py_repr (PBool b) = (if b then ''True'' else ''False'')"
| "py_repr (PInt i) = int_repr i"
| "py_repr (PStr s) = str_repr s"
| "py_repr (PList xs) = CHR ''['' # join_with '', '' (map py_repr xs) @ '']''"
| "py_repr (PDict kvs) =
     CHR ''{'' # join_with '', '' (map (\<lambda>kv. str_repr (fst kv) @ '': '' @ py_repr (snd kv)) kvs)
       @ ''}''"

definition py_str :: "pyval \<Rightarrow> string" where
  "py_str v = (case v of PStr s \<Rightarrow> s | _ \<Rightarrow> py_repr v)"

section \<open>Operations on values\<close>

fun py_truthy :: "pyval \<Rightarrow> bool" where
  "py_truthy PNone = False"
| "py_truthy (PBool b) = b"
| "py_truthy (PInt i) = (i \<noteq> 0)"
| "py_truthy (PStr s) = (s \<noteq> [])"
| "py_truthy (PList xs) = (xs \<noteq> [])"
| "py_truthy (PDict kvs) = (kvs \<noteq> [])"

text \<open>\<open>d.get(k, default)\<close>: only dictionaries have \<open>get\<close>.\<close>

definition dict_get :: "pyval \<Rightarrow> string \<Rightarrow> pyval \<Rightarrow> pyval res" where
  "dict_get d k dflt =
     (case d of
        PDict kvs \<Rightarrow> Inr (case map_of kvs k of Some v \<Rightarrow> v | None \<Rightarrow> dflt)
      | _ \<Rightarrow> Inl AttributeError)"

text \<open>\<open>d[k]\<close>: \<open>KeyError\<close> on a missing key, \<open>TypeError\<close> on a value that is
  not subscriptable by a string.\<close>

definition dict_getitem :: "pyval \<Rightarrow> string \<Rightarrow> pyval res" where
  "dict_getitem d k =
     (case d of
        PDict kvs \<Rightarrow> (case map_of kvs k of Some v \<Rightarrow> Inr v | None \<Rightarrow> Inl KeyError)
      | _ \<Rightarrow> Inl TypeError)"

definition dict_keys :: "pyval \<Rightarrow> string list res" where
  "dict_keys d = (case d of PDict kvs \<Rightarrow> Inr (map fst kvs) | _ \<Rightarrow> Inl AttributeError)"

text \<open>Iterating a value: a list yields its items, a string its characters, a dictionary
  its keys; anything else is not iterable.\<close>

definition py_iter :: "pyval \<Rightarrow> pyval list res" where
  "py_iter v =
     (case v of
        PList xs \<Rightarrow> Inr xs
      | PStr s \<Rightarrow> Inr (map (\<lambda>c. PStr [c]) s)
      | PDict kvs \<Rightarrow> Inr (map (\<lambda>kv. PStr (fst kv)) kvs)
      | _ \<Rightarrow> Inl TypeError)"

definition py_lower_val :: "pyval \<Rightarrow> string res" where
  "py_lower_val v = (case v of PStr s \<Rightarrow> Inr (str_lower s) | _ \<Rightarrow> Inl AttributeError)"

fun as_strs :: "pyval list \<Rightarrow> string list option" where
  "as_strs [] = Some []"
| "as_strs (PStr s # xs) = map_option (Cons s) (as_strs xs)"
| "as_strs (_ # xs) = None"

text \<open>\<open>sep.join(iterable)\<close>: \<open>TypeError\<close> unless every item is a string.\<close>

definition str_join :: "string \<Rightarrow> pyval \<Rightarrow> string res" where
  "str_join sep v =
     rbind (py_iter v)
       (\<lambda>xs. case as_strs xs of Some ss \<Rightarrow> Inr (join_with sep ss) | None \<Rightarrow> Inl TypeError)"

text \<open>\<open>max(xs, key=f)\<close>: CPython keeps the first item and replaces it only by a
  strictly greater one.\<close>

fun py_max_by :: "('a \<Rightarrow> 'b::linorder) \<Rightarrow> 'a list \<Rightarrow> 'a res" where
  "py_max_by f [] = Inl ValueError"
| "py_max_by f (x # xs) = Inr (fold (\<lambda>y m. if f m < f y then y else m) xs x)"

section \<open>Lemmas\<close>

lemma fold_max_first:
  "fold (\<lambda>y m. if f m < f y then y else m) xs m =
   hd (filter (\<lambda>y. f y = Max (f ` set (m # xs))) (m # xs))"
proof (induction xs arbitrary: m)
  case Nil
  then show ?case by simp
next
  case (Cons y ys)
  show ?case
  proof (cases "f m < f y")
    case True
    have le: "f y \<le> Max (f ` set (y # ys))"
      using Max_ge [of "f ` set (y # ys)" "f y"] by simp
    have "Max (f ` set (m # y # ys)) = max (f m) (Max (f ` set (y # ys)))"
      using Max_insert [of "f ` set (y # ys)" "f m"] by simp
    also have "\<dots> = Max (f ` set (y # ys))"
      by (rule max_absorb2 [OF less_imp_le [OF less_le_trans [OF True le]]])
    moreover have "f m \<noteq> Max (f ` set (y # ys))"
      using True Max_ge [of "f ` set (y # ys)" "f y"] by auto
    ultimately show ?thesis using True Cons.IH [of y] by simp
  next
    case False
    have mx: "Max (f ` set (m # y # ys)) = Max (f ` set (m # ys))"
      using False by (cases ys) (auto simp: Max_insert max_def)
    have ge: "f m \<le> Max (f ` set (m # ys))"
      using Max_ge [of "f ` set (m # ys)" "f m"] by simp
    have "f y \<noteq> Max (f ` set (m # ys))" if "f m \<noteq> Max (f ` set (m # ys))"
    proof -
      from ge that have lt: "f m < Max (f ` set (m # ys))" by (rule le_neq_trans)
      from False have "f y \<le> f m" by (rule leI)
      then have "f y < Max (f ` set (m # ys))" using lt by (rule le_less_trans)
      then show ?thesis by simp
    qed
    then show ?thesis using False Cons.IH [of m] mx by auto
  qed
qed

lemma find_eq_hd_filter:
  "find P xs = (case filter P xs of [] \<Rightarrow> None | x # _ \<Rightarrow> Some x)"
  by (induction xs) simp_all

lemma py_max_by_find:
  "xs \<noteq> [] \<Longrightarrow> py_max_by f xs = Inr r \<longleftrightarrow> find (\<lambda>y. f y = Max (f ` set xs)) xs = Some r"
proof (cases xs)
  case (Cons x ys)
  have "Max (f ` set xs) \<in> f ` set xs" using Cons by (intro Max_in) auto
  then have "filter (\<lambda>y. f y = Max (f ` set xs)) xs \<noteq> []"
    by (auto simp: filter_empty_conv)
  then show ?thesis using Cons
    by (auto simp: fold_max_first find_eq_hd_filter split: list.split)
qed simp

lemma py_max_by_Nil_iff [simp]: "py_max_by f xs = Inl e \<longleftrightarrow> xs = [] \<and> e = ValueError"
  by (cases xs) auto

lemma find_eq_member: "x \<in> set xs \<Longrightarrow> find (\<lambda>y. y = x) xs = Some x"
  by (induction xs) auto

lemma py_max_by_id:
  "xs \<noteq> [] \<Longrightarrow> py_max_by id xs = Inr (Max (set xs))"
  by (simp add: py_max_by_find find_eq_member)

lemma dict_get_simps [simp]:
  "dict_get (PDict kvs) k dflt = Inr (case map_of kvs k of Some v \<Rightarrow> v | None \<Rightarrow> dflt)"
  "dict_get PNone k dflt = Inl AttributeError"
  "dict_get (PBool b) k dflt = Inl AttributeError"
  "dict_get (PInt i) k dflt = Inl AttributeError"
  "dict_get (PStr s) k dflt = Inl AttributeError"
  "dict_get (PList xs) k dflt = Inl AttributeError"
  by (simp_all add: dict_get_def)

lemma str_join_strs [simp]:
  "str_join sep (PList (map PStr ss)) = Inr (join_with sep ss)"
proof -
  have "as_strs (map PStr ss) = Some ss" by (induction ss) simp_all
  then show ?thesis by (simp add: str_join_def py_iter_def)
qed

lemma py_lower_val_PStr [simp]: "py_lower_val (PStr s) = Inr (str_lower s)"
  by (simp add: py_lower_val_def)

lemma dict_keys_PDict [simp]: "dict_keys (PDict kvs) = Inr (map fst kvs)"
  by (simp add: dict_keys_def)

end
