(* ===== verification/Classifier.thy ===== *)
theory Classifier
  imports PyVal
begin

text \<open>
  The query classifier, \<open>QueryProcessor\<close> of \<open>src/streamlit_standalone.py\<close>, and the
  \<open>QueryIntent\<close> record it produces. The fixed tables of the constructor
  (\<open>category_keywords\<close>, \<open>locations\<close>) and the time vocabulary of
  \<open>_extract_time_context\<close> are constants; \<open>process_query\<close> lowercases the query,
  splits it into keywords, scores the four categories by counting the markers that occur
  as substrings, and extracts a location and a time token by a first-match scan. The
  only exception the code can meet is \<open>max()\<close> of an empty sequence, kept as an
  error branch of \<open>determine_category\<close>; the lemmas show it never happens. The
  lemmas state the category choice (the first category of maximal score, \<open>general\<close>
  when no marker occurs), the location and time choice (the first entry of the table
  that occurs in the query), totality of the classifier and its insensitivity to case.
\<close>

record query_intent =
  category :: string
  query_keywords :: "string list"  \<comment> \<open>the field \<open>keywords\<close>\<close>
  location :: "string option"
  time_context :: "string option"

definition category_keywords :: "(string \<times> string list) list" where
  "category_keywords =
     [(''language'', [''khamma'', ''ghani'', ''greeting'', ''phrase'', ''hindi'', ''mewari'',
                      ''language'', ''speak'', ''say'']),
      (''food'', [''food'', ''eat'', ''dish'', ''restaurant'', ''dal'', ''baati'', ''churma'',
                  ''kachori'', ''mirchi'', ''vada'']),
      (''tourism'', [''visit'', ''tourist'', ''crowd'', ''timing'', ''palace'', ''lake'',
                     ''transport'', ''traffic'', ''season'']),
      (''culture'', [''culture'', ''etiquette'', ''temple'', ''custom'', ''tradition'',
                     ''respect'', ''dress'', ''behavior''])]"

definition locations :: "string list" where
  "locations = [''surajpole'', ''hathipole'', ''city palace'', ''lake pichola'', ''fateh sagar'',
                ''sajjangarh'', ''chetak circle'']"

definition time_keywords :: "string list" where
  "time_keywords = [''morning'', ''evening'', ''afternoon'', ''night'', ''peak'', ''busy'', ''crowd'']"

text \<open>\<open>sum(1 for keyword in keywords if keyword in query)\<close>\<close>

definition keyword_score :: "string list \<Rightarrow> string \<Rightarrow> nat" where
  "keyword_score ks q = length (filter (\<lambda>k. py_in k q) ks)"

definition category_scores :: "string \<Rightarrow> (string \<times> nat) list" where
  "category_scores q = map (\<lambda>(c, ks). (c, keyword_score ks q)) category_keywords"

text \<open>
  \<open>if max(category_scores.values()) > 0: return max(category_scores,
  key=category_scores.get)\<close>, else \<open>"general"\<close>. Both \<open>max\<close> calls iterate the
  dictionary in insertion order.
\<close>

definition determine_category :: "string \<Rightarrow> string res" where
  "determine_category q =
     (let scores = category_scores q in
      rbind (py_max_by id (map snd scores))
        (\<lambda>m. if 0 < m then rbind (py_max_by snd scores) (\<lambda>p. Inr (fst p))
             else Inr ''general''))"

text \<open>
  The abstract specification of the category choice (not code): \<open>general\<close> when no
  category scores, otherwise the first category, in table order, whose score is the
  maximum.
\<close>

definition first_max_category :: "string \<Rightarrow> string" where
  "first_max_category q =
     (let s = category_scores q; m = Max (snd ` set s) in
      if m = 0 then ''general'' else fst (the (find (\<lambda>p. snd p = m) s)))"

definition extract_location :: "string \<Rightarrow> string option" where
  "extract_location q = map_option py_title (find (\<lambda>l. py_in l q) locations)"

definition extract_time_context :: "string \<Rightarrow> string option" where
  "extract_time_context q = find (\<lambda>k. py_in k q) time_keywords"

definition process_query :: "string \<Rightarrow> query_intent res" where
  "process_query query =
     (let query_lower = str_lower query;
          kws = py_split query_lower in
      rbind (determine_category query_lower)
        (\<lambda>c. Inr \<lparr>category = c, query_keywords = kws,
                  location = extract_location query_lower,
                  time_context = extract_time_context query_lower\<rparr>))"

section \<open>Lemmas\<close>

lemma category_scores_ne [simp]: "category_scores q \<noteq> []"
  by (simp add: category_scores_def category_keywords_def)

lemma map_fst_category_scores [simp]: "map fst (category_scores q) = map fst category_keywords"
  by (simp add: category_scores_def case_prod_beta)

lemma py_max_by_Cons_Inr: "xs \<noteq> [] \<Longrightarrow> \<exists>r. py_max_by f xs = Inr r"
  by (cases xs) auto

lemma category_scores_Max_zero_iff:
  "Max (snd ` set (category_scores q)) = 0 \<longleftrightarrow> (\<forall>p\<in>set (category_scores q). snd p = 0)"
proof -
  have "Max (snd ` set (category_scores q)) \<le> 0 \<longleftrightarrow>
        (\<forall>a\<in>snd ` set (category_scores q). a \<le> 0)"
    by (rule Max_le_iff) auto
  then show ?thesis by simp
qed

lemma determine_category_refines: "determine_category q = Inr (first_max_category q)"
proof -
  let ?s = "category_scores q"
  let ?M = "Max (snd ` set ?s)"
  have m: "py_max_by id (map snd ?s) = Inr ?M" by (simp add: py_max_by_id)
  show ?thesis
  proof (cases "?M = 0")
    case True
    with m show ?thesis by (simp add: determine_category_def first_max_category_def Let_def)
  next
    case False
    obtain p where p: "py_max_by snd ?s = Inr p"
      using py_max_by_Cons_Inr [of ?s snd] by auto
    then have "find (\<lambda>y. snd y = ?M) ?s = Some p" by (simp add: py_max_by_find)
    with p m False show ?thesis
      by (simp add: determine_category_def first_max_category_def Let_def)
  qed
qed

lemma first_max_category_cases:
  "(first_max_category q = ''general'' \<and> (\<forall>p\<in>set (category_scores q). snd p = 0)) \<or>
   (first_max_category q \<in> set (map fst category_keywords) \<and>
    \<not> (\<forall>p\<in>set (category_scores q). snd p = 0))"
proof (cases "\<forall>p\<in>set (category_scores q). snd p = 0")
  case True
  then show ?thesis
    by (simp add: first_max_category_def category_scores_Max_zero_iff [symmetric])
next
  case False
  let ?s = "category_scores q"
  let ?M = "Max (snd ` set ?s)"
  have fin: "finite (snd ` set ?s)" "snd ` set ?s \<noteq> {}" by auto
  have "?M \<in> snd ` set ?s" using fin by (rule Max_in)
  then obtain p0 where "p0 \<in> set ?s" "snd p0 = ?M" by (metis imageE)
  then have "find (\<lambda>y. snd y = ?M) ?s \<noteq> None" unfolding find_None_iff by blast
  then obtain p where p: "find (\<lambda>y. snd y = ?M) ?s = Some p" by blast
  then have "p \<in> set ?s" by (metis find_Some_iff nth_mem)
  then have "fst p \<in> fst ` set ?s" by (rule imageI)
  then have "fst p \<in> set (map fst category_keywords)"
    by (metis map_fst_category_scores set_map)
  with p False show ?thesis
    by (simp add: first_max_category_def category_scores_Max_zero_iff Let_def)
qed

lemma general_not_category: "''general'' \<notin> set (map fst category_keywords)"
  by (simp add: category_keywords_def)

lemma process_query_eq:
  "process_query q =
     Inr \<lparr>category = first_max_category (str_lower q), query_keywords = py_split (str_lower q),
          location = extract_location (str_lower q),
          time_context = extract_time_context (str_lower q)\<rparr>"
  by (simp add: process_query_def determine_category_refines Let_def)

lemma extract_location_first:
  "extract_location q = Some l \<longleftrightarrow>
   (\<exists>i<length locations. l = py_title (locations ! i) \<and> py_in (locations ! i) q \<and>
                          (\<forall>j<i. \<not> py_in (locations ! j) q))"
  by (auto simp: extract_location_def find_Some_first)

lemma distinct_location_titles: "distinct (map py_title locations)"
  by (simp add: locations_def py_title_def py_char_simps)

lemma weather_scores_food:
  assumes "py_in ''weather'' q"
  shows "0 < keyword_score (the (map_of category_keywords ''food'')) q"
proof -
  have "sublist ''eat'' ''weather''" by (simp flip: py_in_sublist)
  with assms have "py_in ''eat'' q"
    using sublist_order.order.trans [of "''eat''" "''weather''" q] by (simp add: py_in_sublist)
  then show ?thesis by (simp add: keyword_score_def category_keywords_def filter_empty_conv)
qed

lemma extract_time_context_first:
  "extract_time_context q = Some t \<longleftrightarrow>
   (\<exists>i<length time_keywords. t = time_keywords ! i \<and> py_in t q \<and>
                              (\<forall>j<i. \<not> py_in (time_keywords ! j) q))"
  by (auto simp: extract_time_context_def find_Some_first)

lemma process_query_lower: "process_query (str_lower q) = process_query q"
  by (simp add: process_query_def)

lemmas classifier_eval =
  category_scores_def category_keywords_def keyword_score_def str_lower_def py_char_simps

section \<open>Properties of the classifier\<close>

text \<open>
  C4. Category scoring and tie-break: \<open>determine_category\<close> never fails; it returns
  \<open>general\<close> when no category scores, and otherwise the category of the first entry of
  \<open>category_keywords\<close> whose score is maximal, every earlier entry scoring strictly less.
\<close>

lemma determine_category_first_max:
  "determine_category q = Inr c \<longleftrightarrow>
   (if \<forall>p\<in>set (category_scores q). snd p = 0 then c = ''general''
    else \<exists>i<length (category_scores q).
           c = fst (category_scores q ! i) \<and>
           (\<forall>p\<in>set (category_scores q). snd p \<le> snd (category_scores q ! i)) \<and>
           (\<forall>j<i. snd (category_scores q ! j) < snd (category_scores q ! i)))"
  (is "_ \<longleftrightarrow> ?R")
proof -
  let ?s = "category_scores q"
  let ?M = "Max (snd ` set ?s)"
  have fin: "finite (snd ` set ?s)" "snd ` set ?s \<noteq> {}" by auto
  have le: "\<forall>p\<in>set ?s. snd p \<le> ?M" using fin by simp
  show ?thesis
  proof (cases "\<forall>p\<in>set ?s. snd p = 0")
    case True
    then show ?thesis
      by (auto simp: determine_category_refines first_max_category_def
                     category_scores_Max_zero_iff [symmetric])
  next
    case False
    then have pos: "?M \<noteq> 0" by (simp add: category_scores_Max_zero_iff)
    have "?M \<in> snd ` set ?s" using fin by (rule Max_in)
    then obtain p0 where "p0 \<in> set ?s" "snd p0 = ?M" by (metis imageE)
    then have "find (\<lambda>y. snd y = ?M) ?s \<noteq> None" unfolding find_None_iff by blast
    then have "determine_category q = Inr c \<longleftrightarrow>
          (\<exists>p. find (\<lambda>y. snd y = ?M) ?s = Some p \<and> c = fst p)"
      using pos by (auto simp: determine_category_refines first_max_category_def Let_def)
    also have "\<dots> \<longleftrightarrow> (\<exists>i<length ?s. c = fst (?s ! i) \<and> snd (?s ! i) = ?M \<and>
                                    (\<forall>j<i. snd (?s ! j) \<noteq> ?M))"
      by (auto simp: find_Some_first) (metis prod.collapse)
    also have "\<dots> \<longleftrightarrow> ?R"
    proof -
      have ne_lt: "snd (?s ! j) \<noteq> ?M \<longleftrightarrow> snd (?s ! j) < ?M" if "j < length ?s" for j
        using that le nth_mem [OF that] by (auto simp: order_less_le)
      have max_iff: "(\<forall>p\<in>set ?s. snd p \<le> snd (?s ! i)) \<longleftrightarrow> snd (?s ! i) = ?M"
        if "i < length ?s" for i
      proof
        assume "\<forall>p\<in>set ?s. snd p \<le> snd (?s ! i)"
        then have "?M \<le> snd (?s ! i)" using fin by (simp add: Max_le_iff)
        moreover have "snd (?s ! i) \<le> ?M" using le nth_mem [OF that] by blast
        ultimately show "snd (?s ! i) = ?M" by linarith
      next
        assume "snd (?s ! i) = ?M"
        with le show "\<forall>p\<in>set ?s. snd p \<le> snd (?s ! i)" by simp
      qed
      have "(\<exists>i<length ?s. c = fst (?s ! i) \<and> snd (?s ! i) = ?M \<and> (\<forall>j<i. snd (?s ! j) \<noteq> ?M))
        \<longleftrightarrow> (\<exists>i<length ?s. c = fst (?s ! i) \<and> (\<forall>p\<in>set ?s. snd p \<le> snd (?s ! i)) \<and>
                             (\<forall>j<i. snd (?s ! j) < snd (?s ! i)))"
      proof (rule ex_cong1)
        fix i
        show "(i < length ?s \<and> c = fst (?s ! i) \<and> snd (?s ! i) = ?M \<and> (\<forall>j<i. snd (?s ! j) \<noteq> ?M)) \<longleftrightarrow>
              (i < length ?s \<and> c = fst (?s ! i) \<and> (\<forall>p\<in>set ?s. snd p \<le> snd (?s ! i)) \<and>
                             (\<forall>j<i. snd (?s ! j) < snd (?s ! i)))"
          using max_iff [of i] ne_lt by (auto dest: less_trans)
      qed
      then show ?thesis by (simp only: if_not_P [OF False])
    qed
    finally show ?thesis .
  qed
qed

theorem determine_category_first_max_witness:
  "determine_category ''khamma ghani food'' = Inr ''language''"
proof -
  have "\<exists>i<length (category_scores ''khamma ghani food'').
           ''language'' = fst (category_scores ''khamma ghani food'' ! i) \<and>
           (\<forall>p\<in>set (category_scores ''khamma ghani food'').
               snd p \<le> snd (category_scores ''khamma ghani food'' ! i)) \<and>
           (\<forall>j<i. snd (category_scores ''khamma ghani food'' ! j)
                  < snd (category_scores ''khamma ghani food'' ! i))"
    by (rule exI [of _ 0]) (simp add: classifier_eval)
  moreover have "\<not> (\<forall>p\<in>set (category_scores ''khamma ghani food''). snd p = 0)"
    by (simp add: classifier_eval)
  ultimately show ?thesis
    using determine_category_first_max [of "''khamma ghani food''" "''language''"] by simp
qed

text \<open>
  C5. A query in which no marker of any category occurs is classified \<open>general\<close>, and
  only such a query is.
\<close>

lemma determine_category_general_iff:
  "determine_category q = Inr ''general'' \<longleftrightarrow> (\<forall>p\<in>set (category_scores q). snd p = 0)"
proof -
  have "first_max_category q = ''general'' \<longleftrightarrow> (\<forall>p\<in>set (category_scores q). snd p = 0)"
    using first_max_category_cases [of q] general_not_category by metis
  then show ?thesis by (simp add: determine_category_refines)
qed

theorem determine_category_general_iff_witness:
  "determine_category ''asdkj qwop'' = Inr ''general''"
  using determine_category_general_iff [of "''asdkj qwop''"] by (simp add: classifier_eval)

text \<open>
  C21. The keywords of the intent carry the query's markers: for a marker without
  whitespace, some keyword contains it exactly when the lowercased query does. This is
  what lets the response generator test markers on keywords (\<open>"khamma" in keyword\<close>,
  \<open>word in " ".join(keywords)\<close>) instead of on the query.
\<close>

lemma keywords_contain_marker:
  assumes "m \<noteq> []" "\<forall>c\<in>set m. \<not> py_isspace c"
  shows "\<exists>i. process_query q = Inr i \<and>
             ((\<exists>w\<in>set (query_keywords i). py_in m w) \<longleftrightarrow> py_in m (str_lower q))"
  using py_in_split [OF assms] by (simp add: process_query_eq)

theorem keywords_contain_marker_witness:
  "''khamma'' \<noteq> [] \<and> \<not> py_isspace (CHR ''k'') \<and> \<not> py_isspace (CHR ''h'') \<and>
   \<not> py_isspace (CHR ''a'') \<and> \<not> py_isspace (CHR ''m'') \<and>
   (\<exists>i. process_query ''KHAMMA sa'' = Inr i \<and>
        ((\<exists>w\<in>set (query_keywords i). py_in ''khamma'' w) \<longleftrightarrow> py_in ''khamma'' (str_lower ''KHAMMA sa'')))"
  using keywords_contain_marker [of "''khamma''" "''KHAMMA sa''"] by (simp add: py_char_simps)

text \<open>
  C22. The keywords are the whitespace-delimited tokens of the lowercased query: each is
  non-empty and free of whitespace, together they hold every non-whitespace character of
  the query in order, and joining them with single spaces and splitting again gives them
  back.
\<close>

lemma keywords_roundtrip:
  "\<exists>i. process_query q = Inr i \<and>
       (\<forall>w\<in>set (query_keywords i). w \<noteq> [] \<and> (\<forall>c\<in>set w. \<not> py_isspace c)) \<and>
       concat (query_keywords i) = filter (\<lambda>c. \<not> py_isspace c) (str_lower q) \<and>
       py_split (join_with '' '' (query_keywords i)) = query_keywords i"
proof -
  have "\<forall>w\<in>set (py_split (str_lower q)). w \<noteq> [] \<and> (\<forall>c\<in>set w. \<not> py_isspace c)"
    using py_split_words by blast
  then show ?thesis by (simp add: process_query_eq py_split_concat py_split_join_space)
qed

theorem keywords_roundtrip_witness:
  "concat [''best'', ''food?''] = filter (\<lambda>c. \<not> py_isspace c) (str_lower ''Best  food?'') \<and>
   py_split (join_with '' '' [''best'', ''food?'']) = [''best'', ''food?'']"
proof -
  have l: "str_lower ''Best  food?'' = ''best  food?''" by (simp add: str_lower_def py_char_simps)
  have s: "py_split ''best  food?'' = [''best'', ''food?'']"
    by (simp add: py_split_step py_char_simps)
  obtain i where "process_query ''Best  food?'' = Inr i"
    "concat (query_keywords i) = filter (\<lambda>c. \<not> py_isspace c) (str_lower ''Best  food?'')"
    "py_split (join_with '' '' (query_keywords i)) = query_keywords i"
    using keywords_roundtrip [of "''Best  food?''"] by blast
  moreover from this(1) have "query_keywords i = [''best'', ''food?'']"
    by (simp only: process_query_eq l s sum.inject query_intent.select_convs) (metis query_intent.select_convs(2))
  ultimately show ?thesis by simp
qed

text \<open>
  C7. Location extraction reports the first place of \<open>locations\<close> that occurs in
  the query, title-cased: the answer is a given place exactly when that place occurs and no
  place listed before it does, and there is no answer exactly when no place occurs.
\<close>

lemma extract_location_first_place:
  assumes "i < length locations"
  shows "(extract_location q = Some (py_title (locations ! i)) \<longleftrightarrow>
            py_in (locations ! i) q \<and> (\<forall>j<i. \<not> py_in (locations ! j) q)) \<and>
         (extract_location q = None \<longleftrightarrow> (\<forall>l\<in>set locations. \<not> py_in l q))"
proof
  show "extract_location q = Some (py_title (locations ! i)) \<longleftrightarrow>
        py_in (locations ! i) q \<and> (\<forall>j<i. \<not> py_in (locations ! j) q)"
  proof
    assume "extract_location q = Some (py_title (locations ! i))"
    then obtain k where k: "k < length locations" "py_title (locations ! i) = py_title (locations ! k)"
        "py_in (locations ! k) q" "\<forall>j<k. \<not> py_in (locations ! j) q"
      by (auto simp: extract_location_first)
    have "k = i"
      using nth_eq_iff_index_eq [OF distinct_location_titles, of i k] k(1,2) assms by simp
    with k(3,4) show "py_in (locations ! i) q \<and> (\<forall>j<i. \<not> py_in (locations ! j) q)" by simp
  next
    assume "py_in (locations ! i) q \<and> (\<forall>j<i. \<not> py_in (locations ! j) q)"
    with assms show "extract_location q = Some (py_title (locations ! i))"
      by (auto simp: extract_location_first)
  qed
next
  show "extract_location q = None \<longleftrightarrow> (\<forall>l\<in>set locations. \<not> py_in l q)"
    by (auto simp: extract_location_def find_None_iff)
qed

theorem extract_location_first_place_witness:
  "py_in ''city palace'' ''city palace near surajpole'' \<and>
   extract_location ''city palace near surajpole'' \<noteq> Some (py_title ''city palace'')"
proof -
  have l: "2 < length locations" "locations ! 2 = ''city palace''" "locations ! 0 = ''surajpole''"
    by (simp_all add: locations_def)
  have p: "py_in ''surajpole'' ''city palace near surajpole''" "py_in ''city palace'' ''city palace near surajpole''"
    by simp_all
  have "\<not> (\<forall>j<2. \<not> py_in (locations ! j) ''city palace near surajpole'')"
  proof
    assume "\<forall>j<2. \<not> py_in (locations ! j) ''city palace near surajpole''"
    then have "\<not> py_in (locations ! 0) ''city palace near surajpole''" by simp
    with l(3) p(1) show False by simp
  qed
  with extract_location_first_place [of 2 "''city palace near surajpole''"] l p(2) show ?thesis by simp
qed

text \<open>
  C14. Markers match inside words: any query that contains \<open>weather\<close> scores the
  food marker \<open>eat\<close>, so it is never classified \<open>general\<close>, and when it holds
  no marker of another category it is classified \<open>food\<close>.
\<close>

lemma weather_is_food:
  assumes "py_in ''weather'' q"
  shows "determine_category q \<noteq> Inr ''general'' \<and>
         ((\<forall>p\<in>set (category_scores q). fst p \<noteq> ''food'' \<longrightarrow> snd p = 0) \<longrightarrow>
            determine_category q = Inr ''food'')"
proof -
  let ?f = "keyword_score (the (map_of category_keywords ''food'')) q"
  have f: "0 < ?f" using weather_scores_food [OF assms] .
  have in_s: "(''food'', ?f) \<in> set (category_scores q)"
    by (simp add: category_scores_def category_keywords_def)
  show ?thesis
  proof
    show "determine_category q \<noteq> Inr ''general''"
    proof -
      have "\<not> (\<forall>p\<in>set (category_scores q). snd p = 0)" using f in_s by force
      then have "first_max_category q \<noteq> ''general''"
        using first_max_category_cases [of q] general_not_category by metis
      then show ?thesis by (simp add: determine_category_refines)
    qed
  next
    show "(\<forall>p\<in>set (category_scores q). fst p \<noteq> ''food'' \<longrightarrow> snd p = 0) \<longrightarrow>
            determine_category q = Inr ''food''"
    proof
      assume z: "\<forall>p\<in>set (category_scores q). fst p \<noteq> ''food'' \<longrightarrow> snd p = 0"
      define s where "s = category_scores q"
      have s: "s = [(''language'', 0), (''food'', ?f), (''tourism'', 0), (''culture'', 0)]"
        using z by (simp add: s_def category_scores_def category_keywords_def)
      have "Max (snd ` set s) = ?f" unfolding s using f by simp
      then have "first_max_category q = ''food''"
        using f unfolding first_max_category_def s_def [symmetric] Let_def by (simp add: s)
      then show "determine_category q = Inr ''food''" by (simp add: determine_category_refines)
    qed
  qed
qed

lemma weather_is_food_witness:
  "py_in ''weather'' ''weather in october'' \<and>
   determine_category ''weather in october'' \<noteq> Inr ''general'' \<and>
   determine_category ''weather in october'' = Inr ''food''"
proof -
  have w: "py_in ''weather'' ''weather in october''" by simp
  have "\<forall>p\<in>set (category_scores ''weather in october''). fst p \<noteq> ''food'' \<longrightarrow> snd p = 0"
    by (simp add: category_scores_def category_keywords_def keyword_score_def)
  with weather_is_food [OF w] w show ?thesis by simp
qed

end
