(* ===== verification/Composer.thy ===== *)
theory Composer
  imports Classifier
begin

text \<open>
  The response generator, \<open>ResponseGenerator\<close> of \<open>src/streamlit_standalone.py\<close>
  (lines 202--283): one strategy per category, each a function of the intent and the
  context returning \<open>string res\<close>, so that every \<open>AttributeError\<close>,
  \<open>TypeError\<close> or \<open>KeyError\<close> the Python code can raise on a context of the wrong
  shape is an \<open>Inl\<close> branch; \<open>generate_response\<close> dispatches on the category
  string and turns any exception into the fixed apology, as its \<open>try\<close>/\<open>except\<close>
  does. The response texts are the source's f-strings, the literal pieces transcribed
  character by character.
\<close>

text \<open>
  The season sentence (line 267) contains the mis-encoded degree sign \<open>U+00AC U+221E\<close>.
  A \<open>char\<close> holds one code point below 256, so \<open>U+221E\<close>, the only code point
  above 255 in the modelled code, is stood in for by \<open>infinity_sign\<close>, a
  non-whitespace character like the one it replaces; no operation of the program
  inspects it.
\<close>

definition infinity_sign :: string where
  "infinity_sign = [CHR 0x7F]"

definition generation_fallback :: string where
  "generation_fallback =
     ''I'm sorry, I encountered an issue generating a response. Please try rephrasing your question.''"

section \<open>Response texts\<close>

text \<open>One template per \<open>return\<close> of a response text in the source (the line is named
  with each); the arguments are the values the f-string formats.\<close>

definition language_khamma_text :: "string \<Rightarrow> string" where
  \<comment> \<open>line 227\<close>
  "language_khamma_text phrase_info =
     CHR 0x27 # ''Khamma Ghani' is a '' @ phrase_info @ ''. It's pronounced 'KHAM-ma GHA-ni' and is the most respectful way to greet someone in Udaipur. You can use it any time of day, and locals will appreciate your effort to use their traditional greeting.''"

definition language_greetings_text :: "string \<Rightarrow> string" where
  \<comment> \<open>line 231\<close>
  "language_greetings_text joined =
     ''Common local greetings in Udaipur include: '' @ joined @ ''. 'Khamma Ghani' is the most traditional and respectful greeting, while 'Ram Ram sa' is more casual. These greetings show respect for local culture.''"

definition language_generic_text :: string where
  \<comment> \<open>line 233\<close>
  "language_generic_text =
     ''Udaipur has rich linguistic traditions. The most common respectful greeting is 'Khamma Ghani', which shows cultural awareness and respect for local customs.''"

definition food_location_text :: "string \<Rightarrow> string" where
  \<comment> \<open>line 242\<close>
  "food_location_text loc =
     ''For authentic food in '' @ loc @ '', you'll find excellent local specialties. Try Dal Baati Churma (traditional Rajasthani dish), Kachori (spiced pastry), and Mirchi Vada (spicy fritters). '' @ loc @ '' is known for its street food and traditional eateries.''"

definition food_dishes_text :: "string \<Rightarrow> string" where
  \<comment> \<open>line 246\<close>
  "food_dishes_text joined =
     ''Must-try authentic Udaipur dishes include: '' @ joined @ ''. Dal Baati Churma is the signature dish - lentils with baked wheat balls and sweet crumble. Visit areas like Surajpole and Hathipole for the best street food experience.''"

definition food_generic_text :: string where
  \<comment> \<open>line 248\<close>
  "food_generic_text =
     ''Udaipur offers amazing local cuisine! Try Dal Baati Churma, Kachori, and local sweets. The old city markets have the most authentic food experiences.''"

definition tourism_crowd_text :: "string \<Rightarrow> string \<Rightarrow> string" where
  \<comment> \<open>line 259\<close>
  "tourism_crowd_text loc peak_time =
     ''At '' @ loc @ '', expect heavy crowds during '' @ peak_time @ ''. For a more peaceful experience, visit between 7-10 am for fewer crowds and better lighting for photography, or after 8 pm for evening ambiance.''"

definition tourism_transport_text :: "string \<Rightarrow> string" where
  \<comment> \<open>line 263\<close>
  "tourism_transport_text transport_lower =
     ''For getting around heritage areas, '' @ transport_lower @ ''. Narrow roads in the old city can cause congestion for larger vehicles. Parking is limited near major attractions, so two-wheelers or walking is often more convenient.''"

definition tourism_season_text :: "string \<Rightarrow> string" where
  \<comment> \<open>line 267\<close>
  "tourism_season_text peak_season =
     ''Peak tourist season in Udaipur is '' @ peak_season @ ''. During '' @ peak_season @ '': Pleasant temperatures (15-25'' @ [CHR 0xAC] @ infinity_sign @ ''C) ideal for sightseeing. Expect Maximum tourist influx - book accommodations and popular restaurants in advance and Peak pricing for hotels, tours, and activities. All outdoor activities available, boat rides at lakes are most popular. Pro tip: Early morning visits (7-10 AM) are essential to avoid crowds. Evening boat rides should be booked in advance.''"

definition tourism_generic_text :: string where
  \<comment> \<open>line 269\<close>
  "tourism_generic_text =
     ''Tourist congestion in Udaipur is heaviest from 4 PM to 9 PM at major attractions like City Palace and Lake Pichola. Early morning (7-10 AM) and late evening (after 8 PM) are the best times for peaceful visits. Peak season from October to March sees significantly higher crowds throughout the day.''"

definition culture_etiquette_text :: "string \<Rightarrow> string" where
  \<comment> \<open>line 277\<close>
  "culture_etiquette_text joined =
     ''Cultural etiquette in Udaipur: '' @ joined @ ''. When visiting temples and palaces, dress modestly and remove shoes where required. Use traditional greetings like 'Khamma Ghani' to show respect for local customs.''"

definition culture_generic_text :: string where
  \<comment> \<open>line 279\<close>
  "culture_generic_text =
     ''Udaipur has rich cultural traditions. Show respect by dressing modestly near temples, using traditional greetings like 'Khamma Ghani', and being mindful of local customs and religious practices.''"

section \<open>Language\<close>

definition generate_language_response :: "query_intent \<Rightarrow> pyval \<Rightarrow> string res" where
  "generate_language_response intent context =
     rbind (dict_get context ''language'' (PDict [])) (\<lambda>language_data.
       if list_ex (\<lambda>keyword. py_in ''khamma'' (str_lower keyword)) (query_keywords intent)
       then rbind (dict_get language_data ''phrases'' (PDict [])) (\<lambda>phrases.
              rbind (dict_get phrases ''Khamma Ghani'' (PStr [])) (\<lambda>phrase_info.
                Inr (language_khamma_text (py_str phrase_info))))
       else rbind (dict_get language_data ''greetings'' (PList [])) (\<lambda>greetings.
              if py_truthy greetings
              then rbind (str_join '', '' greetings) (\<lambda>joined.
                     Inr (language_greetings_text joined))
              else Inr language_generic_text))"

section \<open>Food\<close>

text \<open>\<open>any(intent.location.lower() in area.lower() for area in areas)\<close>: stops at the
  first area that matches; an area that is not a string raises when it is reached.\<close>

fun any_area_match :: "string \<Rightarrow> pyval list \<Rightarrow> bool res" where
  "any_area_match loc [] = Inr False"
| "any_area_match loc (area # areas) =
     rbind (py_lower_val area) (\<lambda>area_lower.
       if py_in (str_lower loc) area_lower then Inr True else any_area_match loc areas)"

definition food_location_match :: "query_intent \<Rightarrow> pyval \<Rightarrow> string option res" where
  "food_location_match intent food_data =
     (case location intent of
        None \<Rightarrow> Inr None
      | Some loc \<Rightarrow>
          if loc = [] then Inr None
          else rbind (dict_get food_data ''areas'' (PList [])) (\<lambda>areas.
                 rbind (py_iter areas) (\<lambda>items.
                   rbind (any_area_match loc items) (\<lambda>hit.
                     Inr (if hit then Some loc else None)))))"

definition generate_food_response :: "query_intent \<Rightarrow> pyval \<Rightarrow> string res" where
  "generate_food_response intent context =
     rbind (dict_get context ''food'' (PDict [])) (\<lambda>food_data.
       rbind (food_location_match intent food_data) (\<lambda>hit.
         case hit of
           Some loc \<Rightarrow> Inr (food_location_text loc)
         | None \<Rightarrow>
             rbind (dict_get food_data ''dishes'' (PList [])) (\<lambda>dishes.
               if py_truthy dishes
               then rbind (str_join '', '' dishes) (\<lambda>joined. Inr (food_dishes_text joined))
               else Inr food_generic_text)))"

section \<open>Tourism\<close>

definition transport_markers :: "string list" where
  "transport_markers = [''transport'', ''traffic'', ''vehicle'', ''bike'', ''car'']"

definition season_markers :: "string list" where
  "season_markers = [''season'', ''weather'', ''october'', ''march'']"

text \<open>Branch (a): the first key of \<open>peak_times\<close> that contains the lowercased location;
  the result is the location and the value stored under that key.\<close>

definition tourism_peak_match :: "query_intent \<Rightarrow> pyval \<Rightarrow> (string \<times> pyval) option res" where
  "tourism_peak_match intent tourism_data =
     (case location intent of
        None \<Rightarrow> Inr None
      | Some loc \<Rightarrow>
          if loc = [] then Inr None
          else rbind (dict_get tourism_data ''peak_times'' (PDict [])) (\<lambda>peak_times.
                 rbind (dict_keys peak_times) (\<lambda>keys.
                   case find (\<lambda>key. py_in (str_lower loc) (str_lower key)) keys of
                     None \<Rightarrow> Inr None
                   | Some location_key \<Rightarrow>
                       if location_key = [] then Inr None
                       else rbind (dict_getitem peak_times location_key) (\<lambda>peak_time.
                              Inr (Some (loc, peak_time))))))"

definition generate_tourism_response :: "query_intent \<Rightarrow> pyval \<Rightarrow> string res" where
  "generate_tourism_response intent context =
     rbind (dict_get context ''tourism'' (PDict [])) (\<lambda>tourism_data.
       rbind (tourism_peak_match intent tourism_data) (\<lambda>hit.
         case hit of
           Some (loc, peak_time) \<Rightarrow> Inr (tourism_crowd_text loc (py_str peak_time))
         | None \<Rightarrow>
             (let joined = join_with '' '' (query_keywords intent) in
              if list_ex (\<lambda>word. py_in word joined) transport_markers
              then rbind (dict_get tourism_data ''transportation'' (PDict [])) (\<lambda>transportation.
                     rbind (dict_get transportation ''heritage_areas'' (PStr [])) (\<lambda>transport_info.
                       rbind (py_lower_val transport_info) (\<lambda>transport_lower.
                         Inr (tourism_transport_text transport_lower))))
              else if list_ex (\<lambda>word. py_in word joined) season_markers
              then rbind (dict_get tourism_data ''peak_season'' (PStr [])) (\<lambda>peak_season.
                     Inr (tourism_season_text (py_str peak_season)))
              else Inr tourism_generic_text)))"

section \<open>Culture and the general answer\<close>

definition generate_culture_response :: "query_intent \<Rightarrow> pyval \<Rightarrow> string res" where
  "generate_culture_response intent context =
     rbind (dict_get context ''culture'' (PDict [])) (\<lambda>culture_data.
       rbind (dict_get culture_data ''etiquette'' (PList [])) (\<lambda>etiquette.
         if py_truthy etiquette
         then rbind (str_join ''. '' etiquette) (\<lambda>joined. Inr (culture_etiquette_text joined))
         else Inr culture_generic_text))"

definition generate_general_response :: "query_intent \<Rightarrow> pyval \<Rightarrow> string" where
  "generate_general_response intent context =
     ''I can help you with information about Udaipur's local language and greetings, authentic food recommendations, tourist timing and transportation, or cultural etiquette. Try asking about 'Khamma Ghani', 'best food in Surajpole', 'when to visit City Palace', or 'temple etiquette'.''"

section \<open>Contexts of the documented shape\<close>

text \<open>
  The specification's data model of the context (not code): the context is a
  dictionary; each topic is absent or a dictionary; \<open>greetings\<close>, \<open>dishes\<close>,
  \<open>areas\<close> and \<open>etiquette\<close> are absent or lists of strings; \<open>phrases\<close> and
  \<open>peak_times\<close> are absent or dictionaries; \<open>transportation\<close> is absent or a
  dictionary whose \<open>heritage_areas\<close> is absent or a string; \<open>peak_season\<close> and the
  phrase meanings may be any value.
\<close>

fun py_is_str :: "pyval \<Rightarrow> bool" where
  "py_is_str (PStr s) = True"
| "py_is_str _ = False"

fun is_dict :: "pyval \<Rightarrow> bool" where
  "is_dict (PDict kvs) = True"
| "is_dict _ = False"

fun str_list :: "pyval \<Rightarrow> bool" where
  "str_list (PList xs) = list_all py_is_str xs"
| "str_list _ = False"

definition field_ok :: "pyval \<Rightarrow> string \<Rightarrow> (pyval \<Rightarrow> bool) \<Rightarrow> bool" where
  "field_ok d k P =
     (case d of PDict kvs \<Rightarrow> (case map_of kvs k of None \<Rightarrow> True | Some v \<Rightarrow> P v) | _ \<Rightarrow> False)"

definition wf_context :: "pyval \<Rightarrow> bool" where
  "wf_context c \<longleftrightarrow>
     field_ok c ''language''
       (\<lambda>l. field_ok l ''greetings'' str_list \<and> field_ok l ''phrases'' is_dict) \<and>
     field_ok c ''food'' (\<lambda>f. field_ok f ''dishes'' str_list \<and> field_ok f ''areas'' str_list) \<and>
     field_ok c ''tourism''
       (\<lambda>t. field_ok t ''peak_times'' is_dict \<and>
            field_ok t ''transportation'' (\<lambda>tr. field_ok tr ''heritage_areas'' py_is_str)) \<and>
     field_ok c ''culture'' (\<lambda>cu. field_ok cu ''etiquette'' str_list)"

section \<open>Dispatch\<close>

definition dispatch_response :: "query_intent \<Rightarrow> pyval \<Rightarrow> string res" where
  "dispatch_response intent context =
     (if category intent = ''language'' then generate_language_response intent context
      else if category intent = ''food'' then generate_food_response intent context
      else if category intent = ''tourism'' then generate_tourism_response intent context
      else if category intent = ''culture'' then generate_culture_response intent context
      else Inr (generate_general_response intent context))"

definition generate_response :: "query_intent \<Rightarrow> pyval \<Rightarrow> string" where
  "generate_response intent context =
     (case dispatch_response intent context of
        Inl _ \<Rightarrow> generation_fallback
      | Inr response \<Rightarrow> response)"

section \<open>Lemmas\<close>

lemmas template_defs =
  language_khamma_text_def language_greetings_text_def language_generic_text_def
  food_location_text_def food_dishes_text_def food_generic_text_def
  tourism_crowd_text_def tourism_transport_text_def tourism_season_text_def
  tourism_generic_text_def culture_etiquette_text_def culture_generic_text_def

lemma templates_trimmed [simp]:
  "is_trimmed (language_khamma_text a)" "is_trimmed (language_greetings_text a)"
  "is_trimmed language_generic_text" "is_trimmed (food_location_text a)"
  "is_trimmed (food_dishes_text a)" "is_trimmed food_generic_text"
  "is_trimmed (tourism_crowd_text a b)" "is_trimmed (tourism_transport_text a)"
  "is_trimmed (tourism_season_text a)" "is_trimmed tourism_generic_text"
  "is_trimmed (culture_etiquette_text a)" "is_trimmed culture_generic_text"
  "is_trimmed generation_fallback" "is_trimmed (generate_general_response i c)"
  unfolding template_defs generation_fallback_def generate_general_response_def
  by (simp_all only: text_end_simps) (simp_all add: py_char_simps)

lemma language_response_trimmed:
  "generate_language_response i c = Inr r \<Longrightarrow> is_trimmed r"
  by (auto simp: generate_language_response_def split: rbind_splits if_splits)

lemma food_response_trimmed:
  "generate_food_response i c = Inr r \<Longrightarrow> is_trimmed r"
  by (auto simp: generate_food_response_def split: rbind_splits if_splits option.splits)

lemma tourism_response_trimmed:
  "generate_tourism_response i c = Inr r \<Longrightarrow> is_trimmed r"
  by (auto simp: generate_tourism_response_def Let_def
           split: rbind_splits if_splits option.splits prod.splits)

lemma culture_response_trimmed:
  "generate_culture_response i c = Inr r \<Longrightarrow> is_trimmed r"
  by (auto simp: generate_culture_response_def split: rbind_splits if_splits)

lemma dispatch_response_trimmed:
  "dispatch_response i c = Inr r \<Longrightarrow> is_trimmed r"
  by (auto simp: dispatch_response_def split: if_splits
           dest: language_response_trimmed food_response_trimmed tourism_response_trimmed
                 culture_response_trimmed)

text \<open>
  The response generator's contract: for every intent and every context, whatever its
  shape, \<open>generate_response\<close> returns a non-empty text that \<open>strip()\<close> leaves
  unchanged, the fixed apology when a strategy raised.
\<close>

lemma generate_response_trimmed: "is_trimmed (generate_response i c)"
  by (auto simp: generate_response_def split: sum.split dest: dispatch_response_trimmed)

lemma field_ok_get:
  "field_ok d k P \<Longrightarrow> P dflt \<Longrightarrow> \<exists>v. dict_get d k dflt = Inr v \<and> P v"
  by (auto simp: field_ok_def split: pyval.splits option.splits)

lemma field_ok_empty [simp]: "field_ok (PDict []) k P"
  by (simp add: field_ok_def)

lemma is_dict_get: "is_dict d \<Longrightarrow> \<exists>v. dict_get d k dflt = Inr v"
  by (cases d) auto

lemma as_strs_list_all: "list_all py_is_str xs \<Longrightarrow> \<exists>ss. as_strs xs = Some ss"
proof (induction xs)
  case (Cons x xs)
  then show ?case by (cases x) auto
qed simp

lemma str_list_join: "str_list v \<Longrightarrow> \<exists>s. str_join sep v = Inr s"
  by (cases v) (auto simp: str_join_def py_iter_def dest!: as_strs_list_all)

lemma any_area_match_total: "list_all py_is_str xs \<Longrightarrow> \<exists>b. any_area_match loc xs = Inr b"
proof (induction xs)
  case (Cons x xs)
  then show ?case by (cases x) (auto simp: py_lower_val_def)
qed auto

lemma str_list_iter: "str_list v \<Longrightarrow> \<exists>xs. py_iter v = Inr xs \<and> list_all py_is_str xs"
  by (cases v) (auto simp: py_iter_def)

lemma dict_keys_getitem:
  "is_dict d \<Longrightarrow> \<exists>ks. dict_keys d = Inr ks \<and> (\<forall>k\<in>set ks. \<exists>v. dict_getitem d k = Inr v)"
  by (cases d) (auto simp: dict_keys_def dict_getitem_def map_of_eq_None_iff split: option.split)

lemma find_Some_in_set: "find P xs = Some x \<Longrightarrow> x \<in> set xs"
  by (metis find_Some_iff nth_mem)

lemma language_total:
  assumes "field_ok c ''language'' (\<lambda>l. field_ok l ''greetings'' str_list \<and> field_ok l ''phrases'' is_dict)"
  shows "\<exists>r. generate_language_response i c = Inr r"
proof -
  obtain l where l: "dict_get c ''language'' (PDict []) = Inr l"
      "field_ok l ''greetings'' str_list" "field_ok l ''phrases'' is_dict"
    using field_ok_get [OF assms, of "PDict []"] by auto
  obtain ph where ph: "dict_get l ''phrases'' (PDict []) = Inr ph" "is_dict ph"
    using field_ok_get [OF l(3), of "PDict []"] by auto
  obtain g where g: "dict_get l ''greetings'' (PList []) = Inr g" "str_list g"
    using field_ok_get [OF l(2), of "PList []"] by auto
  obtain v where v: "dict_get ph ''Khamma Ghani'' (PStr []) = Inr v"
    using is_dict_get [OF ph(2)] by blast
  obtain j where j: "str_join '', '' g = Inr j"
    using str_list_join [OF g(2)] by blast
  show ?thesis
    using l(1) ph(1) g(1) v j by (simp add: generate_language_response_def)
qed

lemma food_location_match_total:
  assumes "field_ok f ''areas'' str_list"
  shows "\<exists>h. food_location_match i f = Inr h"
proof (cases "location i")
  case None
  then show ?thesis by (simp add: food_location_match_def)
next
  case (Some loc)
  obtain a where a: "dict_get f ''areas'' (PList []) = Inr a" "str_list a"
    using field_ok_get [OF assms, of "PList []"] by auto
  obtain xs where xs: "py_iter a = Inr xs" "list_all py_is_str xs"
    using str_list_iter [OF a(2)] by blast
  obtain b where "any_area_match loc xs = Inr b"
    using any_area_match_total [OF xs(2)] by blast
  with Some a(1) xs(1) show ?thesis by (simp add: food_location_match_def)
qed

lemma food_total:
  assumes "field_ok c ''food'' (\<lambda>f. field_ok f ''dishes'' str_list \<and> field_ok f ''areas'' str_list)"
  shows "\<exists>r. generate_food_response i c = Inr r"
proof -
  obtain f where f: "dict_get c ''food'' (PDict []) = Inr f"
      "field_ok f ''dishes'' str_list" "field_ok f ''areas'' str_list"
    using field_ok_get [OF assms, of "PDict []"] by auto
  obtain h where h: "food_location_match i f = Inr h"
    using food_location_match_total [OF f(3)] by blast
  obtain d where d: "dict_get f ''dishes'' (PList []) = Inr d" "str_list d"
    using field_ok_get [OF f(2), of "PList []"] by auto
  obtain j where "str_join '', '' d = Inr j"
    using str_list_join [OF d(2)] by blast
  with f(1) h d(1) show ?thesis
    by (cases h) (simp_all add: generate_food_response_def)
qed

lemma tourism_peak_match_total:
  assumes "field_ok t ''peak_times'' is_dict"
  shows "\<exists>h. tourism_peak_match i t = Inr h"
proof -
  obtain pt where pt: "dict_get t ''peak_times'' (PDict []) = Inr pt" "is_dict pt"
    using field_ok_get [OF assms, of "PDict []"] by auto
  obtain ks where ks: "dict_keys pt = Inr ks" "\<forall>k\<in>set ks. \<exists>v. dict_getitem pt k = Inr v"
    using dict_keys_getitem [OF pt(2)] by blast
  show ?thesis
    using pt(1) ks
    by (auto simp: tourism_peak_match_def split: option.split dest!: find_Some_in_set)
qed

lemma tourism_total:
  assumes "field_ok c ''tourism''
       (\<lambda>t. field_ok t ''peak_times'' is_dict \<and>
            field_ok t ''transportation'' (\<lambda>tr. field_ok tr ''heritage_areas'' py_is_str))"
  shows "\<exists>r. generate_tourism_response i c = Inr r"
proof -
  obtain t where t: "dict_get c ''tourism'' (PDict []) = Inr t" "field_ok t ''peak_times'' is_dict"
      "field_ok t ''transportation'' (\<lambda>tr. field_ok tr ''heritage_areas'' py_is_str)"
    using field_ok_get [OF assms, of "PDict []"] by auto
  obtain h where h: "tourism_peak_match i t = Inr h"
    using tourism_peak_match_total [OF t(2)] by blast
  obtain tr where tr: "dict_get t ''transportation'' (PDict []) = Inr tr"
      "field_ok tr ''heritage_areas'' py_is_str"
    using field_ok_get [OF t(3), of "PDict []"] by auto
  obtain ha where ha: "dict_get tr ''heritage_areas'' (PStr []) = Inr ha" "py_is_str ha"
    using field_ok_get [OF tr(2), of "PStr []"] by auto
  obtain hl where hl: "py_lower_val ha = Inr hl"
    using ha(2) by (cases ha) (auto simp: py_lower_val_def)
  obtain ps where ps: "dict_get t ''peak_season'' (PStr []) = Inr ps"
    using field_ok_get [OF t(2), of "PDict []"] is_dict_get
    by (cases t) (auto simp: field_ok_def)
  show ?thesis
    using t(1) h tr(1) ha(1) hl ps
    by (cases h) (auto simp: generate_tourism_response_def Let_def)
qed

lemma culture_total:
  assumes "field_ok c ''culture'' (\<lambda>cu. field_ok cu ''etiquette'' str_list)"
  shows "\<exists>r. generate_culture_response i c = Inr r"
proof -
  obtain cu where cu: "dict_get c ''culture'' (PDict []) = Inr cu" "field_ok cu ''etiquette'' str_list"
    using field_ok_get [OF assms, of "PDict []"] by auto
  obtain e where e: "dict_get cu ''etiquette'' (PList []) = Inr e" "str_list e"
    using field_ok_get [OF cu(2), of "PList []"] by auto
  obtain j where "str_join ''. '' e = Inr j"
    using str_list_join [OF e(2)] by blast
  with cu(1) e(1) show ?thesis by (simp add: generate_culture_response_def)
qed

lemma wf_context_dispatch: "wf_context c \<Longrightarrow> \<exists>r. dispatch_response i c = Inr r"
  unfolding wf_context_def dispatch_response_def
  using language_total food_total tourism_total culture_total by auto

text \<open>
  C3. Missing data never raises: on a context of the documented shape, where any topic
  or field may be absent, no strategy raises and the answer is the strategy's own, never
  the apology.
\<close>

lemma generate_response_wf:
  "wf_context c \<Longrightarrow> \<exists>r. dispatch_response i c = Inr r \<and> generate_response i c = r"
  using wf_context_dispatch [of c i] by (auto simp: generate_response_def)

lemma generate_response_wf_witness:
  "wf_context (PDict []) \<and>
   (\<exists>r. dispatch_response \<lparr>category = ''food'', query_keywords = [], location = None,
            time_context = None\<rparr> (PDict []) = Inr r \<and>
        generate_response \<lparr>category = ''food'', query_keywords = [], location = None,
            time_context = None\<rparr> (PDict []) = r)"
  using generate_response_wf [of "PDict []"] by (simp add: wf_context_def)

text \<open>
  C8. Tourism branch priority: when the intent's location is contained (ignoring case)
  in a key of \<open>tourism.peak_times\<close>, the answer is the crowd-timing sentence for the
  first such key, whatever transport or season words the keywords hold.
\<close>

lemma tourism_location_priority:
  assumes "map_of kvs ''tourism'' = Some (PDict t)" "map_of t ''peak_times'' = Some (PDict pts)"
    "category i = ''tourism''" "location i = Some loc" "loc \<noteq> []"
    "find (\<lambda>k. py_in (str_lower loc) (str_lower k)) (map fst pts) = Some key" "key \<noteq> []"
  shows "generate_response i (PDict kvs) = tourism_crowd_text loc (py_str (the (map_of pts key)))"
proof -
  have "key \<in> fst ` set pts" using assms(6) find_Some_in_set by fastforce
  then obtain v where v: "map_of pts key = Some v"
    by (metis map_of_eq_None_iff option.exhaust)
  have "tourism_peak_match i (PDict t) = Inr (Some (loc, v))"
    using assms(2,4-7) v by (simp add: tourism_peak_match_def dict_getitem_def)
  with assms(1,3) v show ?thesis
    by (simp add: generate_response_def dispatch_response_def generate_tourism_response_def)
qed

lemma tourism_location_priority_witness:
  "generate_response
     \<lparr>category = ''tourism'', query_keywords = [''transport'', ''season''],
      location = Some ''City Palace'', time_context = None\<rparr>
     (PDict [(''tourism'', PDict [(''peak_times'', PDict [(''City Palace'', PStr ''4 PM - 9 PM'')])])])
   = tourism_crowd_text ''City Palace'' ''4 PM - 9 PM''"
  using tourism_location_priority
    [where kvs = "[(''tourism'', PDict [(''peak_times'', PDict [(''City Palace'', PStr ''4 PM - 9 PM'')])])]"
       and t = "[(''peak_times'', PDict [(''City Palace'', PStr ''4 PM - 9 PM'')])]"
       and pts = "[(''City Palace'', PStr ''4 PM - 9 PM'')]" and key = "''City Palace''"
       and loc = "''City Palace''"
       and i = "\<lparr>category = ''tourism'', query_keywords = [''transport'', ''season''],
                 location = Some ''City Palace'', time_context = None\<rparr>"]
  by (simp add: str_lower_def py_char_simps py_str_def)

text \<open>
  C28. An internal fault is converted, not propagated: when the context's culture entry
  is not a dictionary, \<open>culture_data.get\<close> raises \<open>AttributeError\<close> and the
  generator answers with the fixed apology.
\<close>

lemma topic_not_dict_fallback:
  assumes "map_of kvs ''culture'' = Some v" "\<not> is_dict v" "category i = ''culture''"
  shows "generate_response i (PDict kvs) = generation_fallback"
  using assms
  by (cases v) (simp_all add: generate_response_def dispatch_response_def generate_culture_response_def)

lemma topic_not_dict_fallback_witness:
  "generate_response \<lparr>category = ''culture'', query_keywords = [], location = None, time_context = None\<rparr>
     (PDict [(''culture'', PStr ''be polite'')]) = generation_fallback"
  by (rule topic_not_dict_fallback [where v = "PStr ''be polite''"]) simp_all

text \<open>
  C27. The time context the classifier extracts is never used: the response does not
  depend on it.
\<close>

lemma time_context_unused:
  "generate_response (i\<lparr>time_context := t\<rparr>) c = generate_response i c"
proof -
  have "dispatch_response (i\<lparr>time_context := t\<rparr>) c = dispatch_response i c"
    by (simp add: dispatch_response_def generate_language_response_def generate_food_response_def
        food_location_match_def generate_tourism_response_def tourism_peak_match_def
        generate_culture_response_def generate_general_response_def)
  then show ?thesis by (simp add: generate_response_def)
qed

text \<open>
  C15. When the context's phrase book has no entry for \<open>Khamma Ghani\<close>, a
  language question about it is not answered with generic text: the empty default is
  formatted into the phrase template.
\<close>

lemma missing_phrase_empty_meaning:
  assumes "category i = ''language''" "list_ex (\<lambda>k. py_in ''khamma'' (str_lower k)) (query_keywords i)"
    "dict_get c ''language'' (PDict []) = Inr ld" "dict_get ld ''phrases'' (PDict []) = Inr (PDict p)"
    "map_of p ''Khamma Ghani'' = None"
  shows "generate_response i c = language_khamma_text []"
  using assms by (simp add: generate_response_def dispatch_response_def generate_language_response_def py_str_def)

lemma missing_phrase_empty_meaning_witness:
  "category \<lparr>category = ''language'', query_keywords = [''khamma''], location = None, time_context = None\<rparr> = ''language'' \<and>
   list_ex (\<lambda>k. py_in ''khamma'' (str_lower k)) (query_keywords \<lparr>category = ''language'', query_keywords = [''khamma''], location = None, time_context = None\<rparr>) \<and>
   dict_get (PDict []) ''language'' (PDict []) = Inr (PDict []) \<and>
   dict_get (PDict []) ''phrases'' (PDict []) = Inr (PDict []) \<and>
   map_of [] ''Khamma Ghani'' = (None :: pyval option) \<and>
   generate_response \<lparr>category = ''language'', query_keywords = [''khamma''], location = None, time_context = None\<rparr> (PDict []) = language_khamma_text []"
proof -
  have k: "list_ex (\<lambda>k. py_in ''khamma'' (str_lower k)) [''khamma'']"
    by (simp add: str_lower_def py_char_simps)
  with missing_phrase_empty_meaning
    [of "\<lparr>category = ''language'', query_keywords = [''khamma''], location = None, time_context = None\<rparr>"
        "PDict []" "PDict []" "[]"]
  show ?thesis by simp
qed

text \<open>
  C16. When the tourism data has no \<open>peak_times\<close>, the recognised location plays
  no part in a tourism answer: the answer is the one given to the same question with no
  location.
\<close>

lemma no_peak_times_ignores_location:
  assumes "category i = ''tourism''" "dict_get c ''tourism'' (PDict []) = Inr (PDict t)"
    "map_of t ''peak_times'' = None"
  shows "generate_response i c = generate_response (i\<lparr>location := None\<rparr>) c"
proof -
  have "tourism_peak_match i (PDict t) = Inr None"
    using assms(3) by (simp add: tourism_peak_match_def split: option.split)
  moreover have "tourism_peak_match (i\<lparr>location := None\<rparr>) (PDict t) = Inr None"
    by (simp add: tourism_peak_match_def)
  ultimately show ?thesis
    using assms(1,2) by (simp add: generate_response_def dispatch_response_def generate_tourism_response_def)
qed

lemma no_peak_times_ignores_location_witness:
  "category \<lparr>category = ''tourism'', query_keywords = [''traffic''], location = Some ''City Palace'', time_context = None\<rparr> = ''tourism'' \<and>
   dict_get (PDict [(''tourism'', PDict [])]) ''tourism'' (PDict []) = Inr (PDict []) \<and>
   map_of [] ''peak_times'' = (None :: pyval option) \<and>
   generate_response \<lparr>category = ''tourism'', query_keywords = [''traffic''], location = Some ''City Palace'', time_context = None\<rparr>
     (PDict [(''tourism'', PDict [])]) =
   generate_response (\<lparr>category = ''tourism'', query_keywords = [''traffic''], location = Some ''City Palace'', time_context = None\<rparr>\<lparr>location := None\<rparr>)
     (PDict [(''tourism'', PDict [])])"
  using no_peak_times_ignores_location
    [of "\<lparr>category = ''tourism'', query_keywords = [''traffic''], location = Some ''City Palace'', time_context = None\<rparr>"
        "PDict [(''tourism'', PDict [])]" "[]"]
  by simp

end
