(* ===== verification/Guide.thy ===== *)
theory Guide
  imports Composer
begin

text \<open>
  The entry points that tie the pipeline together. \<open>ContextLoader\<close> of
  \<open>src/streamlit_standalone.py\<close> (lines 93--142) is \<open>load_context\<close>: the file system
  is the value \<open>file_state\<close> of the knowledge file \<open>.kiro/product.md\<close>, and every
  outcome, the parsed one included, is the built-in \<open>default_context\<close>. The
  function \<open>local_guide\<close> of the same file (lines 286--322) is \<open>local_guide\<close>: input
  validation, stripping, loading, classification, composition and the empty-answer
  check, each exception handler a branch. The \<open>local_guide\<close> of \<open>src/app.py\<close>
  (lines 13--74) is \<open>app_local_guide\<close>: it imports its loader from
  \<open>src/context_loader.py\<close>, which is not in the repository; the outcome of that
  loader is the value \<open>load_outcome\<close> (a context, or the exception it raised), and
  the classifier and composer are those of the standalone file, which the
  specification describes as the same components.
\<close>

section \<open>Context loader\<close>

text \<open>The knowledge file as \<open>load_context\<close> finds it: absent
  (\<open>os.path.exists\<close> is false), present with its text, or present but raising on
  \<open>open\<close>/\<open>read\<close>.\<close>

datatype file_state = FileMissing | FileContent string | FileUnreadable

definition default_context :: pyval where
  "default_context =
     PDict [
       (''language'', PDict [
          (''greetings'', PList (map PStr [''Khamma Ghani'', ''Ram Ram sa'', ''Padharo Mhare Des'', ''Bhai sa''])),
          (''phrases'', PDict [
             (''Khamma Ghani'', PStr ''Traditional greeting meaning hello/respect''),
             (''Ram Ram sa'', PStr ''Casual greeting''),
             (''Padharo Mhare Des'', PStr ''Welcome to our land''),
             (''Bhai sa'', PStr ''Respectful way to address someone'')])]),
       (''food'', PDict [
          (''dishes'', PList (map PStr [''Dal Baati Churma'', ''Kachori'', ''Mirchi Vada'', ''Ghewar''])),
          (''areas'', PList (map PStr [''Surajpole'', ''Hathipole'', ''Chetak Circle'', ''Old City markets'']))]),
       (''tourism'', PDict [
          (''peak_times'', PDict [(''City Palace'', PStr ''4 PM - 9 PM''), (''Lake Pichola'', PStr ''4 PM - 9 PM'')]),
          (''transportation'', PDict [(''heritage_areas'', PStr ''Two-wheelers are the fastest mode inside heritage areas'')]),
          (''peak_season'', PStr ''October to March'')]),
       (''culture'', PDict [
          (''etiquette'', PList (map PStr [''Modest clothing near temples and palaces'', ''Respect local customs and greetings'']))]),
       (''overview'', PDict [
          (''description'', PStr ''Udaipur, known as the City of Lakes''),
          (''key_areas'', PList (map PStr [''Lake Pichola'', ''City Palace'', ''Fateh Sagar'', ''Sajjangarh'']))])]"

definition parse_context :: "string \<Rightarrow> pyval" where
  "parse_context content = default_context"

definition load_context :: "file_state \<Rightarrow> pyval" where
  "load_context f =
     (case f of
        FileMissing \<Rightarrow> default_context
      | FileContent content \<Rightarrow> parse_context content
      | FileUnreadable \<Rightarrow> default_context)"

section \<open>Messages of the entry points\<close>

definition invalid_query_msg :: string where
  "invalid_query_msg =
     ''Please provide a valid question about Udaipur's culture, food, language, or tourist information.''"

definition empty_query_msg :: string where
  "empty_query_msg =
     ''Please enter a question about local culture, food recommendations, language phrases, or tourist information.''"

definition rephrase_msg :: string where
  "rephrase_msg =
     ''I had trouble understanding your question. Could you please rephrase it? I can help with local phrases, food recommendations, tourist information, or cultural guidance.''"

definition no_answer_msg :: string where
  "no_answer_msg =
     ''I'm not sure how to help with that specific question. Try asking about local greetings like 'Khamma Ghani', food recommendations for specific areas, crowd timing at tourist spots, or cultural etiquette guidance.''"

definition kb_missing_msg :: string where
  "kb_missing_msg =
     ''I'm sorry, I can't access the local knowledge base right now. Please ensure the product.md file is available and try again.''"

definition kb_format_msg :: "string \<Rightarrow> string" where
  "kb_format_msg err =
     ''There's an issue with the local knowledge base: '' @ err @ ''. Please check the product.md file format.''"

definition technical_difficulties_msg :: string where
  "technical_difficulties_msg =
     ''I'm experiencing technical difficulties. Please try asking about: local phrases and greetings, authentic food recommendations, tourist crowd timing, or cultural etiquette guidance.''"

section \<open>The entry points\<close>

text \<open>The body shared by both entry points once the context is at hand: classify
  (a raise is the rephrase message), compose, and reject an answer that is empty
  after \<open>strip()\<close>.\<close>

definition answer_query :: "string \<Rightarrow> pyval \<Rightarrow> string" where
  "answer_query query context =
     (case process_query query of
        Inl _ \<Rightarrow> rephrase_msg
      | Inr intent \<Rightarrow>
          (let response = generate_response intent context in
           if \<not> py_truthy (PStr response) \<or> \<not> py_truthy (PStr (py_strip response))
           then no_answer_msg
           else py_strip response))"

text \<open>The argument is any Python value: \<open>not query or not isinstance(query, str)\<close>
  rejects the empty string and every non-string.\<close>

definition local_guide :: "file_state \<Rightarrow> pyval \<Rightarrow> string" where
  "local_guide fs query =
     (if \<not> py_truthy query \<or> \<not> py_is_str query then invalid_query_msg
      else
        (let q = py_strip (py_str query) in
         if \<not> py_truthy (PStr q) then empty_query_msg
         else answer_query q (load_context fs)))"

text \<open>What \<open>src/context_loader.py\<close>'s \<open>load_context\<close> does in \<open>src/app.py\<close>: it
  returns a context or raises \<open>FileNotFoundError\<close>, \<open>ValueError\<close> (with its
  message) or another exception.\<close>

datatype load_outcome = Loaded pyval | LoadFileNotFound | LoadValueError string | LoadOtherError

definition app_local_guide :: "load_outcome \<Rightarrow> pyval \<Rightarrow> string" where
  "app_local_guide lo query =
     (if \<not> py_truthy query \<or> \<not> py_is_str query then invalid_query_msg
      else
        (let q = py_strip (py_str query) in
         if \<not> py_truthy (PStr q) then empty_query_msg
         else
           (case lo of
              LoadFileNotFound \<Rightarrow> kb_missing_msg
            | LoadValueError e \<Rightarrow> kb_format_msg e
            | LoadOtherError \<Rightarrow> technical_difficulties_msg
            | Loaded context \<Rightarrow> answer_query q context)))"

section \<open>Lemmas\<close>

lemma messages_trimmed [simp]:
  "is_trimmed invalid_query_msg" "is_trimmed empty_query_msg" "is_trimmed rephrase_msg"
  "is_trimmed no_answer_msg" "is_trimmed kb_missing_msg" "is_trimmed (kb_format_msg e)"
  "is_trimmed technical_difficulties_msg"
  unfolding invalid_query_msg_def empty_query_msg_def rephrase_msg_def no_answer_msg_def
    kb_missing_msg_def kb_format_msg_def technical_difficulties_msg_def
  by (simp_all only: text_end_simps) (simp_all add: py_char_simps)

text \<open>\<open>_parse_context\<close> ignores the text it is given, so the loader returns the
  built-in context whatever the file system holds.\<close>

lemma load_context_default: "load_context fs = default_context"
  by (simp add: load_context_def parse_context_def split: file_state.split)

lemma wf_default_context: "wf_context default_context"
  by (simp add: wf_context_def default_context_def field_ok_def)

lemma py_strip_Nil_Nil: "py_strip [] = []"
  by (simp add: py_strip_def)

text \<open>The classifier never raises and the composer's answer is already trimmed, so the
  handlers for a failed classification and for an empty answer are never taken.\<close>

lemma answer_query_eq:
  "answer_query q c =
     generate_response \<lparr>category = first_max_category (str_lower q),
       query_keywords = py_split (str_lower q), location = extract_location (str_lower q),
       time_context = extract_time_context (str_lower q)\<rparr> c"
  using generate_response_trimmed
  by (simp add: answer_query_def process_query_eq is_trimmed_def)

lemma answer_query_lower: "answer_query (str_lower q) c = answer_query q c"
  by (simp add: answer_query_eq)

lemma answer_query_trimmed: "is_trimmed (answer_query q c)"
  by (simp add: answer_query_eq generate_response_trimmed)

lemma local_guide_nonblank:
  "py_strip s \<noteq> [] \<Longrightarrow> local_guide fs (PStr s) = answer_query (py_strip s) default_context"
  by (cases "s = []") (auto simp: local_guide_def load_context_default py_str_def py_strip_Nil_Nil)

lemma local_guide_cases:
  "local_guide fs q = invalid_query_msg \<or> local_guide fs q = empty_query_msg \<or>
   (\<exists>s. local_guide fs q = answer_query s default_context)"
  by (auto simp: local_guide_def load_context_default Let_def)

lemma app_local_guide_cases:
  "app_local_guide lo q \<in> {invalid_query_msg, empty_query_msg, kb_missing_msg,
     technical_difficulties_msg} \<or>
   (\<exists>e. app_local_guide lo q = kb_format_msg e) \<or> (\<exists>s c. app_local_guide lo q = answer_query s c)"
  by (auto simp: app_local_guide_def Let_def split: load_outcome.split)

lemma local_guide_blank:
  "py_strip s = [] \<Longrightarrow> local_guide fs (PStr s) = (if s = [] then invalid_query_msg else empty_query_msg)"
  by (simp add: local_guide_def py_str_def)

lemma app_local_guide_trimmed: "is_trimmed (app_local_guide lo q)"
  using app_local_guide_cases [of lo q] answer_query_trimmed by auto

text \<open>
  C1. The standalone entry point always answers with text: for every argument, string or
  not, and every state of the knowledge file, \<open>local_guide\<close> returns a non-empty
  string that \<open>strip()\<close> leaves unchanged.
\<close>

lemma local_guide_trimmed: "is_trimmed (local_guide fs q)"
  using local_guide_cases [of fs q] answer_query_trimmed by auto

text \<open>
  C2. On a question that is not blank, \<open>local_guide\<close> answers with the composer's
  response to the classification of the stripped, lowercased question, on the built-in
  context: the loader's file is never read into the answer, and the handlers for a
  failed classification and an empty answer are never taken.
\<close>

lemma local_guide_answer:
  "py_strip s \<noteq> [] \<Longrightarrow>
   local_guide fs (PStr s) =
     generate_response \<lparr>category = first_max_category (str_lower (py_strip s)),
       query_keywords = py_split (str_lower (py_strip s)),
       location = extract_location (str_lower (py_strip s)),
       time_context = extract_time_context (str_lower (py_strip s))\<rparr> default_context"
  by (simp add: local_guide_nonblank answer_query_eq)

lemma local_guide_answer_witness:
  "py_strip '' hi '' \<noteq> [] \<and>
   local_guide FileMissing (PStr '' hi '') =
     generate_response \<lparr>category = first_max_category (str_lower (py_strip '' hi '')),
       query_keywords = py_split (str_lower (py_strip '' hi '')),
       location = extract_location (str_lower (py_strip '' hi '')),
       time_context = extract_time_context (str_lower (py_strip '' hi ''))\<rparr> default_context"
proof -
  have "py_strip '' hi '' \<noteq> []" by (simp add: py_strip_def py_char_simps)
  with local_guide_answer [of "'' hi ''" FileMissing] show ?thesis by blast
qed

text \<open>
  C6. Matching ignores case: two questions with the same lowercase form get the same
  answer.
\<close>

lemma local_guide_case_insensitive:
  assumes "str_lower s1 = str_lower s2"
  shows "local_guide fs (PStr s1) = local_guide fs (PStr s2)"
proof -
  have e: "s1 = [] \<longleftrightarrow> s2 = []" using assms str_lower_Nil_iff by metis
  have b: "py_strip s1 = [] \<longleftrightarrow> py_strip s2 = []"
    using assms str_lower_strip str_lower_Nil_iff by metis
  show ?thesis
  proof (cases "py_strip s1 = []")
    case True
    with b e show ?thesis by (simp add: local_guide_blank)
  next
    case False
    have "answer_query (py_strip s1) default_context = answer_query (py_strip s2) default_context"
      by (metis answer_query_lower assms str_lower_strip)
    with False b show ?thesis by (simp add: local_guide_nonblank)
  qed
qed

lemma local_guide_case_insensitive_witness:
  "str_lower ''KHAMMA'' = str_lower ''khamma'' \<and>
   local_guide FileMissing (PStr ''KHAMMA'') = local_guide FileMissing (PStr ''khamma'')"
proof -
  have "str_lower ''KHAMMA'' = str_lower ''khamma''" by (simp add: str_lower_def py_char_simps)
  with local_guide_case_insensitive [of "''KHAMMA''" "''khamma''" FileMissing] show ?thesis by blast
qed

text \<open>
  C18. In \<open>src/app.py\<close>, a loader failure is reported by kind once the question is
  valid: a missing file, a format error with its message, and any other exception each
  give their fixed text.
\<close>

lemma app_local_guide_load_errors:
  assumes "py_strip s \<noteq> []"
  shows "app_local_guide LoadFileNotFound (PStr s) = kb_missing_msg \<and>
         app_local_guide (LoadValueError e) (PStr s) = kb_format_msg e \<and>
         app_local_guide LoadOtherError (PStr s) = technical_difficulties_msg"
proof -
  have "s \<noteq> []" using assms py_strip_Nil_Nil by auto
  with assms show ?thesis by (simp add: app_local_guide_def py_str_def)
qed

lemma app_local_guide_load_errors_witness:
  "py_strip ''q'' \<noteq> [] \<and>
   app_local_guide LoadFileNotFound (PStr ''q'') = kb_missing_msg \<and>
   app_local_guide (LoadValueError ''bad'') (PStr ''q'') = kb_format_msg ''bad'' \<and>
   app_local_guide LoadOtherError (PStr ''q'') = technical_difficulties_msg"
proof -
  have "py_strip ''q'' \<noteq> []" by (simp add: py_strip_def py_char_simps)
  with app_local_guide_load_errors [of "''q''" "''bad''"] show ?thesis by blast
qed

end
