(* ===== verification/Cli.thy ===== *)
theory Cli
  imports Guide
begin

text \<open>
  The interactive shell \<open>main()\<close> of \<open>src/app.py\<close> (lines 77--142). The loop reads
  a line, strips it, and either leaves on an exit command, hints on an empty line, prints
  the help on a help command, or prints the guide's answer; a keyboard interrupt or end
  of input leaves with the farewell, any other exception is reported and the loop
  continues. What the loop reads is a list of input events, and what it prints is a list
  of outputs, one constructor per group of \<open>print\<close> calls (the banner, the
  farewell, the hint, the help text, an answer, an error notice); the emoji of those
  texts are outside the Latin-1 model of strings and are not spelled out. The loop is
  stated over any answering function \<open>guide\<close>; \<open>app_main\<close> instantiates it with
  \<open>app_local_guide\<close>. A finite event list is what the user has typed so far: when it
  is used up without an exit, the program is waiting for the next line.
\<close>

datatype cli_event =
    InputLine string     \<comment> \<open>\<open>input()\<close> returns a line\<close>
  | InputEOF             \<comment> \<open>\<open>input()\<close> raises \<open>EOFError\<close>\<close>
  | InputInterrupt       \<comment> \<open>\<open>KeyboardInterrupt\<close>\<close>
  | InputFault string    \<comment> \<open>any other exception, with \<open>str(e)\<close>\<close>

datatype cli_output =
    Banner                    \<comment> \<open>lines 88--95\<close>
  | Farewell                  \<comment> \<open>lines 104--105, after an exit command\<close>
  | FarewellOnSignal          \<comment> \<open>lines 132--133 and 136--137, after an interrupt or EOF\<close>
  | EmptyHint                 \<comment> \<open>lines 110--111\<close>
  | HelpText                  \<comment> \<open>lines 116--120\<close>
  | GuideAnswer string        \<comment> \<open>lines 124--129\<close>
  | ErrorNotice string        \<comment> \<open>lines 140--141\<close>

definition exit_commands :: "string list" where
  "exit_commands = [''quit'', ''exit'', ''bye'', ''q'']"

definition help_commands :: "string list" where
  "help_commands = [''help'', ''h'', ''?'']"

fun cli_loop :: "(pyval \<Rightarrow> string) \<Rightarrow> cli_event list \<Rightarrow> cli_output list" where
  "cli_loop guide [] = []"
| "cli_loop guide (InputLine line # evs) =
     (let user_input = py_strip line in
      if str_lower user_input \<in> set exit_commands then [Farewell]
      else if \<not> py_truthy (PStr user_input) then EmptyHint # cli_loop guide evs
      else if str_lower user_input \<in> set help_commands then HelpText # cli_loop guide evs
      else GuideAnswer (guide (PStr user_input)) # cli_loop guide evs)"
| "cli_loop guide (InputInterrupt # evs) = [FarewellOnSignal]"
| "cli_loop guide (InputEOF # evs) = [FarewellOnSignal]"
| "cli_loop guide (InputFault e # evs) = ErrorNotice e # cli_loop guide evs"

definition cli_main :: "(pyval \<Rightarrow> string) \<Rightarrow> cli_event list \<Rightarrow> cli_output list" where
  "cli_main guide evs = Banner # cli_loop guide evs"

abbreviation app_main :: "load_outcome \<Rightarrow> cli_event list \<Rightarrow> cli_output list" where
  "app_main lo \<equiv> cli_main (app_local_guide lo)"

section \<open>Specification of the shell\<close>

text \<open>The shell described event by event (not code): an event either ends the session
  or produces exactly one output.\<close>

fun ends_session :: "cli_event \<Rightarrow> bool" where
  "ends_session (InputLine line) = (str_lower (py_strip line) \<in> set exit_commands)"
| "ends_session InputEOF = True"
| "ends_session InputInterrupt = True"
| "ends_session (InputFault e) = False"

fun farewell_for :: "cli_event \<Rightarrow> cli_output" where
  "farewell_for (InputLine line) = Farewell"
| "farewell_for _ = FarewellOnSignal"

fun reply_to :: "(pyval \<Rightarrow> string) \<Rightarrow> cli_event \<Rightarrow> cli_output" where
  "reply_to guide (InputLine line) =
     (if py_strip line = [] then EmptyHint
      else if str_lower (py_strip line) \<in> set help_commands then HelpText
      else GuideAnswer (guide (PStr (py_strip line))))"
| "reply_to guide (InputFault e) = ErrorNotice e"
| "reply_to guide _ = FarewellOnSignal"

definition cli_spec :: "(pyval \<Rightarrow> string) \<Rightarrow> cli_event list \<Rightarrow> cli_output list" where
  "cli_spec guide evs =
     map (reply_to guide) (takeWhile (Not \<circ> ends_session) evs) @
     (case dropWhile (Not \<circ> ends_session) evs of [] \<Rightarrow> [] | ev # _ \<Rightarrow> [farewell_for ev])"

fun is_farewell :: "cli_output \<Rightarrow> bool" where
  "is_farewell Farewell = True"
| "is_farewell FarewellOnSignal = True"
| "is_farewell _ = False"

section \<open>Lemmas\<close>

lemma cli_loop_spec_eq: "cli_loop guide evs = cli_spec guide evs"
proof (induction guide evs rule: cli_loop.induct)
  case (2 guide line evs)
  then show ?case by (simp add: cli_spec_def Let_def)
qed (simp_all add: cli_spec_def)

lemma reply_to_not_farewell: "\<not> ends_session ev \<Longrightarrow> \<not> is_farewell (reply_to guide ev)"
  by (cases ev) auto

lemma farewell_for_is_farewell [simp]: "is_farewell (farewell_for ev)"
  by (cases ev) auto

lemma farewell_for_not_answer [simp]: "GuideAnswer a \<noteq> farewell_for ev"
  by (cases ev) auto

text \<open>
  C12. The shell refines its event-by-event description: after the banner, every event
  before the first exit command, end of input or interrupt gets exactly its own reply,
  and that first ending event gets the farewell and nothing after it is read.
\<close>

lemma cli_main_refines_spec: "cli_main guide evs = Banner # cli_spec guide evs"
  by (simp add: cli_main_def cli_loop_spec_eq)

text \<open>
  C13. A session says goodbye at most once and last: no farewell is printed before the
  final output, and there is a farewell exactly when some event ends the session.
\<close>

lemma cli_loop_farewell_last:
  "\<exists>rs fs. cli_loop guide evs = rs @ fs \<and> \<not> list_ex is_farewell rs \<and> length fs \<le> 1 \<and>
           list_all is_farewell fs \<and> (fs = [] \<longleftrightarrow> \<not> list_ex ends_session evs)"
proof -
  let ?rs = "map (reply_to guide) (takeWhile (Not \<circ> ends_session) evs)"
  let ?fs = "case dropWhile (Not \<circ> ends_session) evs of [] \<Rightarrow> [] | ev # _ \<Rightarrow> [farewell_for ev]"
  have "\<not> list_ex is_farewell ?rs"
    by (auto simp: list_ex_iff dest!: set_takeWhileD reply_to_not_farewell)
  moreover have "length ?fs \<le> 1" "list_all is_farewell ?fs" by (simp_all split: list.split)
  moreover have "?fs = [] \<longleftrightarrow> \<not> list_ex ends_session evs"
  proof (cases "dropWhile (Not \<circ> ends_session) evs")
    case Nil
    then have "\<forall>x\<in>set evs. \<not> ends_session x" by (simp add: dropWhile_eq_Nil_conv)
    then show ?thesis unfolding Nil by (simp add: list_ex_iff)
  next
    case (Cons x xs)
    have "x \<in> set evs" using set_dropWhileD [of x "Not \<circ> ends_session" evs] Cons by simp
    moreover have "ends_session x" using Cons by (auto simp: dropWhile_eq_Cons_conv)
    ultimately have "x \<in> set evs \<and> ends_session x" by blast
    with Cons show ?thesis by (auto simp: list_ex_iff)
  qed
  ultimately show ?thesis unfolding cli_loop_spec_eq cli_spec_def by blast
qed

text \<open>
  C17. Every answer the shell of \<open>src/app.py\<close> prints is non-empty and trimmed, and it
  is the guide's answer to the stripped text of a line the user typed that was neither
  blank, nor an exit command, nor a help command.
\<close>

lemma app_main_answers:
  assumes "GuideAnswer a \<in> set (app_main lo evs)"
  shows "is_trimmed a \<and>
         (\<exists>line. InputLine line \<in> set evs \<and> py_strip line \<noteq> [] \<and> \<not> ends_session (InputLine line) \<and>
            str_lower (py_strip line) \<notin> set help_commands \<and>
            a = app_local_guide lo (PStr (py_strip line)))"
proof -
  from assms obtain ev where ev: "ev \<in> set (takeWhile (Not \<circ> ends_session) evs)"
      "reply_to (app_local_guide lo) ev = GuideAnswer a"
    by (auto simp: cli_main_def cli_loop_spec_eq cli_spec_def split: list.splits)
  obtain line where "ev = InputLine line"
    using ev(2) by (cases ev) auto
  with ev have l: "InputLine line \<in> set evs" "\<not> ends_session (InputLine line)"
    using set_takeWhileD [of "InputLine line" "Not \<circ> ends_session" evs] by auto
  from ev(2) \<open>ev = InputLine line\<close> have "py_strip line \<noteq> []"
      "str_lower (py_strip line) \<notin> set help_commands" "a = app_local_guide lo (PStr (py_strip line))"
    by (simp_all split: if_splits)
  with l show ?thesis using app_local_guide_trimmed by blast
qed

lemma app_main_answers_witness:
  "GuideAnswer (app_local_guide LoadOtherError (PStr ''hello''))
     \<in> set (app_main LoadOtherError [InputLine '' hello '']) \<and>
   is_trimmed (app_local_guide LoadOtherError (PStr ''hello''))"
proof -
  have s: "py_strip '' hello '' = ''hello''" by (simp add: py_strip_def py_char_simps)
  have "GuideAnswer (app_local_guide LoadOtherError (PStr ''hello''))
     \<in> set (app_main LoadOtherError [InputLine '' hello ''])"
    by (simp add: cli_main_def s exit_commands_def help_commands_def str_lower_def py_char_simps)
  with app_main_answers show ?thesis by blast
qed

end
