(* ===== verification/Chat.thy ===== *)
theory Chat
  imports Guide
begin

text \<open>
  The chat page of \<open>src/streamlit_standalone.py\<close>. Streamlit runs the whole script
  again on every interaction, so the program's state is what it keeps in
  \<open>st.session_state\<close> between runs: the chat history (a list of
  \<open>{"role", "content"}\<close> dictionaries) and the example-selection flags. One run of the
  script under one interaction is \<open>page_run\<close>: the example buttons (lines 384--389),
  the text box (392--397), the clearing of the example selection (400--403), the
  \<open>Ask Guide\<close> button (406--427), \<open>Clear Chat\<close> (432--434) and \<open>Refresh\<close>
  (436--437), in the order the script executes them. Streamlit reports one clicked button
  per run; typing in the text box reruns the script with no button. \<open>st.rerun()\<close> starts
  a run with no interaction, which is itself a \<open>page_run\<close>. The guide is a parameter
  that returns an answer or raises (with \<open>str(e)\<close>); \<open>page_guide\<close> is the
  standalone \<open>local_guide\<close>, which never raises. The step relation \<open>page_step\<close> and
  the reachable sessions \<open>page_reachable\<close> are inductive, and the history invariant
  is proved by rule induction over them.
\<close>

record chat_message =
  role :: string
  content :: string

record session =
  chat_history :: "chat_message list"
  example_clicked :: bool
  selected_query :: "string option"   \<comment> \<open>the key \<open>selected_query\<close>, absent or set\<close>

text \<open>Lines 23--27: the first run finds no state and creates both keys.\<close>

definition init_session :: session where
  "init_session = \<lparr>chat_history = [], example_clicked = False, selected_query = None\<rparr>"

definition example_queries :: "string list" where
  "example_queries =
     [''What does Khamma Ghani mean?'', ''Best food in Surajpole area?'',
      ''When to visit City Palace to avoid crowds?'', ''What is Dal Baati Churma?'',
      ''Transportation to heritage areas?'', ''Temple etiquette in Udaipur?'',
      ''Peak season timing for tourists?'', ''Local greeting customs?'']"

text \<open>The interaction that starts a run. \<open>ClickAsk\<close> and \<open>NoClick\<close> carry what
  the text box holds.\<close>

datatype page_event =
    ClickExample nat
  | ClickAsk string
  | ClickClear
  | ClickRefresh
  | NoClick string

datatype page_notice = NoNotice | EmptyQuestionWarning

definition chat_error_text :: "string \<Rightarrow> string" where
  "chat_error_text err =
     ''I'm sorry, I encountered an error: '' @ err @ ''. Please try again with a different question.''"

text \<open>Lines 384--389: the loop draws every example button; only the clicked one, if
  any, returns \<open>True\<close>.\<close>

definition click_examples :: "page_event \<Rightarrow> session \<Rightarrow> session" where
  "click_examples ev s =
     (case ev of
        ClickExample i \<Rightarrow>
          if i < length example_queries
          then s\<lparr>example_clicked := True, selected_query := Some (example_queries ! i)\<rparr>
          else s
      | _ \<Rightarrow> s)"

text \<open>Lines 400--403.\<close>

definition clear_example :: "session \<Rightarrow> session" where
  "clear_example s =
     (if example_clicked s then s\<lparr>example_clicked := False, selected_query := None\<rparr> else s)"

text \<open>Lines 406--427: a question that is blank after \<open>strip()\<close> gets the warning;
  otherwise the question and then the answer, or the error text if the guide raised,
  are appended to the history.\<close>

definition ask_guide ::
  "(string \<Rightarrow> string + string) \<Rightarrow> string \<Rightarrow> session \<Rightarrow> session \<times> page_notice" where
  "ask_guide guide user_input s =
     (if py_truthy (PStr (py_strip user_input))
      then
        (let s1 = s\<lparr>chat_history := chat_history s @ [\<lparr>role = ''user'', content = user_input\<rparr>]\<rparr>;
             reply = (case guide user_input of Inr response \<Rightarrow> response
                                             | Inl e \<Rightarrow> chat_error_text e)
         in (s1\<lparr>chat_history := chat_history s1 @ [\<lparr>role = ''bot'', content = reply\<rparr>]\<rparr>, NoNotice))
      else (s, EmptyQuestionWarning))"

definition page_run ::
  "(string \<Rightarrow> string + string) \<Rightarrow> page_event \<Rightarrow> session \<Rightarrow> session \<times> page_notice" where
  "page_run guide ev s =
     (let s1 = clear_example (click_examples ev s) in
      case ev of
        ClickAsk user_input \<Rightarrow> ask_guide guide user_input s1
      | ClickClear \<Rightarrow> (s1\<lparr>chat_history := []\<rparr>, NoNotice)
      | _ \<Rightarrow> (s1, NoNotice))"

abbreviation page_guide :: "file_state \<Rightarrow> string \<Rightarrow> string + string" where
  "page_guide fs \<equiv> (\<lambda>q. Inr (local_guide fs (PStr q)))"

text \<open>Lines 449--463: user messages are shown as \<open>You\<close>, every other role as the
  guide.\<close>

datatype speaker = You | LocalGuide

definition message_speaker :: "chat_message \<Rightarrow> speaker" where
  "message_speaker m = (if role m = ''user'' then You else LocalGuide)"

text \<open>The markup of lines 449--463, as the source holds it. The emoji of the labels are
  stored mis-encoded: a private-use code point \<open>U+F8FF\<close> followed by Latin-1
  characters; the code point above 255 is stood in for by \<open>private_use_sign\<close>.
  Each message is one \<open>st.markdown\<close> call with \<open>unsafe_allow_html=True\<close>,
  after a header when the history is not empty.\<close>

definition private_use_sign :: string where
  "private_use_sign = [CHR 0x7F]"

definition indent :: "nat \<Rightarrow> string" where
  "indent n = replicate n (CHR '' '')"

definition user_message_html :: "string \<Rightarrow> string" where
  \<open>user_message_html c =
     [CHR 0x0A] @ indent 12 @ ''<div class="chat-message user-message">'' @ [CHR 0x0A] @
     indent 16 @ ''<strong>'' @ private_use_sign @ [CHR 0xFC, CHR 0xA7, CHR 0xEE] @
     '' You:</strong> '' @ c @ [CHR 0x0A] @ indent 12 @ ''</div>'' @ [CHR 0x0A] @ indent 12\<close>

definition bot_message_html :: "string \<Rightarrow> string" where
  \<open>bot_message_html c =
     [CHR 0x0A] @ indent 12 @ ''<div class="chat-message bot-message">'' @ [CHR 0x0A] @
     indent 16 @ ''<strong>'' @ private_use_sign @ [CHR 0xFC, CHR 0xA7, CHR 0xF1] @
     '' Local Guide:</strong> '' @ c @ [CHR 0x0A] @ indent 12 @ ''</div>'' @ [CHR 0x0A] @ indent 12\<close>

definition message_html :: "chat_message \<Rightarrow> string" where
  "message_html m = (if role m = ''user'' then user_message_html (content m) else bot_message_html (content m))"

datatype page_element = Header string | HtmlMarkdown string

definition conversation_view :: "session \<Rightarrow> page_element list" where
  "conversation_view s =
     (if chat_history s = [] then []
      else Header (private_use_sign @ [CHR 0xFC, CHR 0xED, CHR 0xA8] @ '' Conversation'') #
           map (HtmlMarkdown \<circ> message_html) (chat_history s))"

section \<open>Runs and reachable sessions\<close>

inductive page_step :: "(string \<Rightarrow> string + string) \<Rightarrow> session \<Rightarrow> session \<Rightarrow> bool" where
  run: "page_step guide s (fst (page_run guide ev s))"

inductive page_reachable :: "(string \<Rightarrow> string + string) \<Rightarrow> session \<Rightarrow> bool" where
  start: "page_reachable guide init_session"
| step: "page_reachable guide s \<Longrightarrow> page_step guide s t \<Longrightarrow> page_reachable guide t"

fun page_runs :: "(string \<Rightarrow> string + string) \<Rightarrow> page_event list \<Rightarrow> session \<Rightarrow> session" where
  "page_runs guide [] s = s"
| "page_runs guide (ev # evs) s = page_runs guide evs (fst (page_run guide ev s))"

section \<open>The history invariant\<close>

text \<open>The exchange a question produces: the question as typed, then the answer or the
  error text.\<close>

definition exchange :: "(string \<Rightarrow> string + string) \<Rightarrow> string \<Rightarrow> chat_message list" where
  "exchange guide q =
     [\<lparr>role = ''user'', content = q\<rparr>,
      \<lparr>role = ''bot'', content = (case guide q of Inr r \<Rightarrow> r | Inl e \<Rightarrow> chat_error_text e)\<rparr>]"

definition chat_inv :: "(string \<Rightarrow> string + string) \<Rightarrow> session \<Rightarrow> bool" where
  "chat_inv guide s \<longleftrightarrow>
     \<not> example_clicked s \<and> selected_query s = None \<and>
     (\<exists>qs. list_all (\<lambda>q. py_strip q \<noteq> []) qs \<and> chat_history s = concat (map (exchange guide) qs))"

text \<open>The abstract history (not code): the non-blank questions asked since the last
  \<open>Clear Chat\<close>, in order.\<close>

fun asked_since_clear :: "page_event list \<Rightarrow> string list \<Rightarrow> string list" where
  "asked_since_clear [] qs = qs"
| "asked_since_clear (ClickAsk q # evs) qs =
     asked_since_clear evs (if py_strip q \<noteq> [] then qs @ [q] else qs)"
| "asked_since_clear (ClickClear # evs) qs = asked_since_clear evs []"
| "asked_since_clear (_ # evs) qs = asked_since_clear evs qs"

section \<open>Lemmas\<close>

inductive_cases page_step_elim: "page_step guide s t"

lemma clear_example_inv [simp]:
  "\<not> example_clicked s \<Longrightarrow> clear_example s = s"
  by (simp add: clear_example_def)

lemma clear_click_examples:
  "clear_example (click_examples ev s) =
     (if example_clicked s \<or> (\<exists>i. ev = ClickExample i \<and> i < length example_queries)
      then s\<lparr>example_clicked := False, selected_query := None\<rparr> else s)"
  by (auto simp: clear_example_def click_examples_def split: page_event.split)

lemma page_run_history:
  "\<not> example_clicked s \<Longrightarrow> selected_query s = None \<Longrightarrow>
   fst (page_run guide ev s) =
     s\<lparr>chat_history :=
        (case ev of
           ClickAsk q \<Rightarrow> if py_strip q \<noteq> [] then chat_history s @ exchange guide q else chat_history s
         | ClickClear \<Rightarrow> []
         | _ \<Rightarrow> chat_history s)\<rparr>"
  by (cases ev)
     (auto simp: page_run_def clear_click_examples ask_guide_def exchange_def Let_def)

lemma page_run_inv: "chat_inv guide s \<Longrightarrow> chat_inv guide (fst (page_run guide ev s))"
proof -
  assume inv: "chat_inv guide s"
  then obtain qs where qs: "list_all (\<lambda>q. py_strip q \<noteq> []) qs"
      "chat_history s = concat (map (exchange guide) qs)" and f: "\<not> example_clicked s" "selected_query s = None"
    by (auto simp: chat_inv_def)
  show ?thesis
  proof (cases ev)
    case (ClickAsk q)
    then show ?thesis using qs f
      by (auto simp: page_run_history chat_inv_def intro: exI [of _ "qs @ [q]"] exI [of _ qs])
  next
    case ClickClear
    then show ?thesis using f by (auto simp: page_run_history chat_inv_def intro: exI [of _ "[]"])
  qed (use qs f in \<open>auto simp: page_run_history chat_inv_def\<close>)
qed

lemma chat_inv_init: "chat_inv guide init_session"
  by (auto simp: chat_inv_def init_session_def intro: exI [of _ "[]"])

lemma page_reachable_chat_inv: "page_reachable guide s \<Longrightarrow> chat_inv guide s"
proof (induction rule: page_reachable.induct)
  case start
  show ?case by (rule chat_inv_init)
next
  case (step s t)
  then show ?case by (auto elim: page_step_elim intro: page_run_inv)
qed

lemma page_runs_history:
  "\<not> example_clicked s \<Longrightarrow> selected_query s = None \<Longrightarrow>
   chat_history s = concat (map (exchange guide) qs) \<Longrightarrow>
   chat_history (page_runs guide evs s) = concat (map (exchange guide) (asked_since_clear evs qs))"
proof (induction evs arbitrary: s qs)
  case (Cons ev evs)
  show ?case
    using Cons.prems
    by (cases ev) (auto simp: page_run_history intro!: Cons.IH)
qed simp

lemma speakers_exchange: "map message_speaker (exchange guide q) = [You, LocalGuide]"
  by (simp add: exchange_def message_speaker_def)

lemma speakers_exchanges:
  "map message_speaker (concat (map (exchange guide) qs)) = concat (replicate (length qs) [You, LocalGuide])"
  by (induction qs) (simp_all add: speakers_exchange)

lemma sublist_user_message_html: "sublist c (user_message_html c)"
proof -
  have \<open>user_message_html c =
    ([CHR 0x0A] @ indent 12 @ ''<div class="chat-message user-message">'' @ [CHR 0x0A] @
     indent 16 @ ''<strong>'' @ private_use_sign @ [CHR 0xFC, CHR 0xA7, CHR 0xEE] @ '' You:</strong> '')
     @ c @ ([CHR 0x0A] @ indent 12 @ ''</div>'' @ [CHR 0x0A] @ indent 12)\<close>
    by (simp add: user_message_html_def)
  then show ?thesis by (simp only: sublist_appendI)
qed

lemma exchange_page_guide:
  "m \<in> set (exchange (page_guide fs) q) \<Longrightarrow>
   (role m = ''user'' \<and> content m = q) \<or> (role m = ''bot'' \<and> content m = local_guide fs (PStr q))"
  by (auto simp: exchange_def)

section \<open>Properties of the chat page\<close>

text \<open>
  C9. Every session the page can reach holds a history of whole exchanges: shown in
  order, the speakers alternate \<open>You\<close>, \<open>Local Guide\<close>, starting with \<open>You\<close>
  and ending with \<open>Local Guide\<close>.
\<close>

lemma page_reachable_speakers:
  assumes "page_reachable guide s"
  shows "\<exists>n. map message_speaker (chat_history s) = concat (replicate n [You, LocalGuide])"
proof -
  obtain qs where "chat_history s = concat (map (exchange guide) qs)"
    using page_reachable_chat_inv [OF assms] by (auto simp: chat_inv_def)
  then have "map message_speaker (chat_history s) = concat (replicate (length qs) [You, LocalGuide])"
    by (simp add: speakers_exchanges)
  then show ?thesis by blast
qed

lemma page_reachable_speakers_witness:
  "page_reachable (page_guide FileMissing) (fst (page_run (page_guide FileMissing) (ClickAsk ''hi'') init_session)) \<and>
   (\<exists>n. map message_speaker (chat_history (fst (page_run (page_guide FileMissing) (ClickAsk ''hi'') init_session)))
        = concat (replicate n [You, LocalGuide]))"
proof -
  have r: "page_reachable (page_guide FileMissing) (fst (page_run (page_guide FileMissing) (ClickAsk ''hi'') init_session))"
    by (rule page_reachable.step [OF page_reachable.start page_step.run])
  with page_reachable_speakers show ?thesis by blast
qed

text \<open>
  C10. The page refines its abstract history: after any sequence of interactions from
  the first run, the history is the exchanges of the non-blank questions asked since the
  last \<open>Clear Chat\<close>, in order, each answered by the guide when it was asked.
\<close>

lemma page_history_refines:
  "chat_history (page_runs guide evs init_session) =
     concat (map (exchange guide) (asked_since_clear evs []))"
  by (rule page_runs_history) (simp_all add: init_session_def)

text \<open>
  C19. A blank question is refused: \<open>Ask Guide\<close> with a text box that is empty after
  \<open>strip()\<close> shows the warning and leaves the session unchanged.
\<close>

lemma blank_question_warning:
  assumes "page_reachable guide s" "py_strip q = []"
  shows "page_run guide (ClickAsk q) s = (s, EmptyQuestionWarning)"
proof -
  have "\<not> example_clicked s" using page_reachable_chat_inv [OF assms(1)] by (simp add: chat_inv_def)
  with assms(2) show ?thesis
    by (simp add: page_run_def click_examples_def ask_guide_def py_strip_Nil_Nil)
qed

lemma blank_question_warning_witness:
  "page_reachable (page_guide FileMissing) init_session \<and> py_strip ''  '' = [] \<and>
   page_run (page_guide FileMissing) (ClickAsk ''  '') init_session = (init_session, EmptyQuestionWarning)"
proof -
  have "py_strip ''  '' = []" by (simp add: py_strip_def py_char_simps)
  with blank_question_warning [OF page_reachable.start] show ?thesis
    by (blast intro: page_reachable.start)
qed

text \<open>
  C24. The example selection never outlives a run: the run that sets
  \<open>example_clicked\<close> and \<open>selected_query\<close> clears them again (lines 400--403), so no
  reachable session holds them.
\<close>

lemma page_reachable_flags_reset:
  "page_reachable guide s \<Longrightarrow> \<not> example_clicked s \<and> selected_query s = None"
  using page_reachable_chat_inv by (simp add: chat_inv_def)

lemma page_reachable_flags_reset_witness:
  "page_reachable (page_guide FileMissing) (fst (page_run (page_guide FileMissing) (ClickExample 0) init_session)) \<and>
   \<not> example_clicked (fst (page_run (page_guide FileMissing) (ClickExample 0) init_session)) \<and>
   selected_query (fst (page_run (page_guide FileMissing) (ClickExample 0) init_session)) = None"
proof -
  have "page_reachable (page_guide FileMissing) (fst (page_run (page_guide FileMissing) (ClickExample 0) init_session))"
    by (rule page_reachable.step [OF page_reachable.start page_step.run])
  with page_reachable_flags_reset show ?thesis by blast
qed

text \<open>
  C11. The page always makes progress on a question: from every reachable session, asking
  a non-blank question is a run whose history is the old one followed by that question
  and its answer.
\<close>

lemma page_ask_progress:
  assumes "page_reachable guide s" "py_strip q \<noteq> []"
  shows "\<exists>t. page_step guide s t \<and> chat_history t = chat_history s @ exchange guide q"
proof -
  have "\<not> example_clicked s" "selected_query s = None"
    using page_reachable_chat_inv [OF assms(1)] by (simp_all add: chat_inv_def)
  then have "chat_history (fst (page_run guide (ClickAsk q) s)) = chat_history s @ exchange guide q"
    using assms(2) by (simp add: page_run_history)
  then show ?thesis by (blast intro: page_step.run)
qed

lemma page_ask_progress_witness:
  "page_reachable (page_guide FileMissing) init_session \<and> py_strip ''hi'' \<noteq> [] \<and>
   (\<exists>t. page_step (page_guide FileMissing) init_session t \<and>
        chat_history t = chat_history init_session @ exchange (page_guide FileMissing) ''hi'')"
proof -
  have "py_strip ''hi'' \<noteq> []" by (simp add: py_strip_def py_char_simps)
  with page_ask_progress [OF page_reachable.start] show ?thesis by (blast intro: page_reachable.start)
qed

text \<open>
  C20. A question reaches the page as markup: after it is asked, the rendered conversation
  holds a message, passed to \<open>st.markdown\<close> with \<open>unsafe_allow_html=True\<close>, that
  contains the question's text verbatim, tags included; nothing escapes it.
\<close>

lemma question_rendered_raw:
  assumes "page_reachable guide s" "py_strip q \<noteq> []"
  shows "\<exists>h. HtmlMarkdown h \<in> set (conversation_view (fst (page_run guide (ClickAsk q) s))) \<and>
             sublist q h"
proof -
  have "\<not> example_clicked s" "selected_query s = None"
    using page_reachable_chat_inv [OF assms(1)] by (simp_all add: chat_inv_def)
  then have hist: "chat_history (fst (page_run guide (ClickAsk q) s)) = chat_history s @ exchange guide q"
    using assms(2) by (simp add: page_run_history)
  have "HtmlMarkdown (user_message_html q) \<in> set (conversation_view (fst (page_run guide (ClickAsk q) s)))"
    by (force simp: conversation_view_def hist exchange_def message_html_def)
  then show ?thesis using sublist_user_message_html by blast
qed

lemma question_rendered_raw_witness:
  "page_reachable (page_guide FileMissing) init_session \<and>
   py_strip ''<img src=x onerror=alert(1)>'' \<noteq> [] \<and>
   (\<exists>h. HtmlMarkdown h \<in> set (conversation_view
          (fst (page_run (page_guide FileMissing) (ClickAsk ''<img src=x onerror=alert(1)>'') init_session))) \<and>
        sublist ''<img src=x onerror=alert(1)>'' h)"
proof -
  have "py_strip ''<img src=x onerror=alert(1)>'' \<noteq> []" by (simp add: py_strip_def py_char_simps)
  with question_rendered_raw [OF page_reachable.start] show ?thesis by (blast intro: page_reachable.start)
qed

text \<open>
  C23. The page and the guide together keep the history well formed: on the page that
  calls the standalone \<open>local_guide\<close>, every message of every reachable session is
  either a user question that is not blank or a guide answer that is non-empty and
  trimmed.
\<close>

lemma page_history_wellformed:
  assumes "page_reachable (page_guide fs) s" "m \<in> set (chat_history s)"
  shows "(role m = ''user'' \<and> py_strip (content m) \<noteq> []) \<or>
         (role m = ''bot'' \<and> is_trimmed (content m))"
proof -
  obtain qs where qs: "list_all (\<lambda>q. py_strip q \<noteq> []) qs"
      "chat_history s = concat (map (exchange (page_guide fs)) qs)"
    using page_reachable_chat_inv [OF assms(1)] by (auto simp: chat_inv_def)
  then obtain q where q: "q \<in> set qs" "m \<in> set (exchange (page_guide fs) q)"
    using assms(2) by auto
  have "is_trimmed (local_guide fs (PStr q))"
    using local_guide_cases [of fs "PStr q"] answer_query_trimmed by auto
  with q qs(1) show ?thesis
    using exchange_page_guide [OF q(2)] by (auto simp: list_all_iff)
qed

lemma page_history_wellformed_witness:
  "page_reachable (page_guide FileMissing)
     (fst (page_run (page_guide FileMissing) (ClickAsk ''hi'') init_session)) \<and>
   \<lparr>role = ''user'', content = ''hi''\<rparr> \<in>
     set (chat_history (fst (page_run (page_guide FileMissing) (ClickAsk ''hi'') init_session))) \<and>
   ((role \<lparr>role = ''user'', content = ''hi''\<rparr> = ''user'' \<and>
     py_strip (content \<lparr>role = ''user'', content = ''hi''\<rparr>) \<noteq> []) \<or>
    (role \<lparr>role = ''user'', content = ''hi''\<rparr> = ''bot'' \<and>
     is_trimmed (content \<lparr>role = ''user'', content = ''hi''\<rparr>)))"
proof -
  have r: "page_reachable (page_guide FileMissing)
     (fst (page_run (page_guide FileMissing) (ClickAsk ''hi'') init_session))"
    by (rule page_reachable.step [OF page_reachable.start page_step.run])
  have "py_strip ''hi'' \<noteq> []" by (simp add: py_strip_def py_char_simps)
  then have m: "\<lparr>role = ''user'', content = ''hi''\<rparr> \<in>
     set (chat_history (fst (page_run (page_guide FileMissing) (ClickAsk ''hi'') init_session)))"
    by (simp add: page_run_history init_session_def exchange_def)
  from page_history_wellformed [OF r m] r m show ?thesis by blast
qed

end
