(* ===== verification/Theme.thy ===== *)
theory Theme
  imports Prelude
begin

text \<open>
  The theme toggle of \<open>src/theme_fix.py\<close> (lines 9--21), a sidebar snippet meant to
  replace the one of the chat page. A radio button offers the light and the dark mode,
  preselected from \<open>st.session_state.dark_mode\<close>; when the selected mode differs from
  the stored flag, the flag is updated, the external \<open>apply_theme()\<close> is called and
  the script is rerun. One run of the snippet is \<open>theme_run\<close>: it takes the stored
  flag and the option the user picked in this run (\<open>None\<close> when the radio was not
  touched, so that it returns its preselected option) and gives the new flag and whether
  \<open>apply_theme()\<close> and \<open>st.rerun()\<close> were called.
\<close>

datatype theme_choice = LightMode | DarkMode

definition theme_options :: "theme_choice list" where
  "theme_options = [LightMode, DarkMode]"

definition radio_index :: "bool \<Rightarrow> nat" where
  "radio_index dark_mode = (if dark_mode then 1 else 0)"

definition theme_run :: "bool \<Rightarrow> theme_choice option \<Rightarrow> bool \<times> bool" where
  "theme_run dark_mode pick =
     (let theme_choice = (case pick of Some c \<Rightarrow> c | None \<Rightarrow> theme_options ! radio_index dark_mode);
          new_dark_mode = (theme_choice = DarkMode)
      in if new_dark_mode \<noteq> dark_mode then (new_dark_mode, True) else (dark_mode, False))"

text \<open>A sequence of interactions with the toggle. After a run that requested
  \<open>st.rerun()\<close> (line 21), Streamlit runs the snippet again at once with the radio
  untouched; the result is the final flag and the number of \<open>apply_theme()\<close> calls.\<close>

fun theme_session :: "bool \<Rightarrow> theme_choice option list \<Rightarrow> bool \<times> nat" where
  "theme_session dark_mode [] = (dark_mode, 0)"
| "theme_session dark_mode (pick # picks) =
     (let (d1, applied1) = theme_run dark_mode pick;
          (d2, applied2) = (if applied1 then theme_run d1 None else (d1, False));
          (d, n) = theme_session d2 picks
      in (d, n + (if applied1 then 1 else 0) + (if applied2 then 1 else 0)))"

text \<open>The reference (not code): the flag is the mode of the last pick, the starting flag
  when nothing was picked.\<close>

fun picked_mode :: "bool \<Rightarrow> theme_choice option list \<Rightarrow> bool" where
  "picked_mode d [] = d"
| "picked_mode d (None # picks) = picked_mode d picks"
| "picked_mode d (Some c # picks) = picked_mode (c = DarkMode) picks"

fun mode_changes :: "bool \<Rightarrow> theme_choice option list \<Rightarrow> nat" where
  "mode_changes d [] = 0"
| "mode_changes d (None # picks) = mode_changes d picks"
| "mode_changes d (Some c # picks) =
     (if (c = DarkMode) \<noteq> d then 1 else 0) + mode_changes (c = DarkMode) picks"

section \<open>Lemmas\<close>

lemma preselected_option: "theme_options ! radio_index d = (if d then DarkMode else LightMode)"
  by (simp add: theme_options_def radio_index_def)

lemma theme_run_pick:
  "theme_run d (Some c) = (c = DarkMode, d \<noteq> (c = DarkMode))"
  by (cases c) (auto simp: theme_run_def)

lemma theme_run_None [simp]: "theme_run d None = (d, False)"
  by (simp add: theme_run_def preselected_option)

text \<open>
  C26. The rerun the toggle requests ends: the run that follows, in which the radio is not
  touched, keeps the flag and neither applies the theme nor reruns again, so a pick causes
  at most one \<open>apply_theme()\<close> and one rerun.
\<close>

lemma theme_rerun_settles:
  "theme_run (fst (theme_run d pick)) None = (fst (theme_run d pick), False)"
  by (cases pick) (auto simp: theme_run_def preselected_option split: theme_choice.split)

lemma theme_session_eq:
  "theme_session d picks = (picked_mode d picks, mode_changes d picks)"
proof (induction picks arbitrary: d)
  case (Cons pick picks)
  then show ?case
    by (cases pick) (simp_all add: theme_run_pick)
qed simp

lemma mode_changes_bound: "mode_changes d picks \<le> length (filter (\<lambda>p. p \<noteq> None) picks)"
  by (induction d picks rule: mode_changes.induct) auto

text \<open>
  C25. Over any sequence of interactions the toggle refines its reference: the flag ends
  as the mode of the last pick, \<open>apply_theme()\<close> is called once for each pick that
  changes the mode and never by the rerun that follows, so at most once per pick.
\<close>

lemma theme_session_refines:
  "theme_session d picks = (picked_mode d picks, mode_changes d picks) \<and>
   snd (theme_session d picks) \<le> length (filter (\<lambda>p. p \<noteq> None) picks)"
  using theme_session_eq mode_changes_bound by simp

end
