(* ===== verification/Tests.thy ===== *)
theory Tests
  imports Guide
begin

text \<open>
  The manual script \<open>src/test_tourism_implementation.py\<close>: a sample context and ten
  tourism intents, each passed to \<open>ResponseGenerator.generate_response\<close> and printed.
  The script imports the generator from \<open>src/response_generator.py\<close>, which is not in
  the repository; the generator is that of the standalone file, which the specification
  describes as the same component. What the script prints is the list of responses
  \<open>test_tourism_responses\<close>; the script asserts nothing. Which branch answers a
  case is stated in general by the tourism lemmas of \<open>Composer\<close>.
\<close>

definition test_context :: pyval where
  "test_context =
     PDict [
       (''language'', PDict [
          (''greetings'', PList (map PStr [''Khamma Ghani'', ''Ram Ram sa'', ''Padharo Mhare Des'', ''Bhai sa''])),
          (''phrases'', PDict [
             (''Khamma Ghani'', PStr ''Traditional greeting meaning hello/respect''),
             (''Ram Ram sa'', PStr ''Casual greeting''),
             (''Padharo Mhare Des'', PStr ''Welcome to our land''),
             (''Bhai sa'', PStr ''Respectful way to address someone'')])]),
       (''food'', PDict [
          (''dishes'', PList (map PStr [''Dal Baati Churma'', ''Kachori'', ''Mirchi Vada'', ''Ghewar''])),
          (''areas'', PList (map PStr [''Surajpole'', ''Hathipole'', ''Chetak Circle'', ''Old City markets'']))]),
       (''tourism'', PDict [
          (''peak_times'', PDict [(''City Palace'', PStr ''4 PM - 9 PM''), (''Lake Pichola'', PStr ''4 PM - 9 PM'')]),
          (''transportation'', PDict [(''heritage_areas'', PStr ''Two-wheelers are the fastest mode inside heritage areas'')]),
          (''peak_season'', PStr ''October to March'')]),
       (''culture'', PDict [
          (''etiquette'', PList (map PStr [''Modest clothing near temples and palaces'', ''Respect local customs and greetings'']))]),
       (''overview'', PDict [
          (''description'', PStr ''Udaipur, known as the City of Lakes''),
          (''key_areas'', PList (map PStr [''Lake Pichola'', ''City Palace'', ''Fateh Sagar'', ''Sajjangarh'']))])]"

definition tourism_intent :: "string list \<Rightarrow> string option \<Rightarrow> query_intent" where
  "tourism_intent kws loc =
     \<lparr>category = ''tourism'', query_keywords = kws, location = loc, time_context = None\<rparr>"

definition test_cases :: "(string \<times> query_intent) list" where
  "test_cases =
     [(''Crowd estimation - general'', tourism_intent [''crowd'', ''busy''] None),
      (''Crowd estimation - City Palace'', tourism_intent [''crowd'', ''congestion''] (Some ''City Palace'')),
      (''Crowd estimation - Lake Pichola'', tourism_intent [''tourist'', ''crowded''] (Some ''Lake Pichola'')),
      (''Transportation - heritage areas'', tourism_intent [''transportation'', ''heritage''] None),
      (''Transportation - City Palace'', tourism_intent [''transport'', ''vehicle''] (Some ''City Palace'')),
      (''Transportation - traffic'', tourism_intent [''traffic'', ''bike'', ''car''] None),
      (''Timing - best visit time'', tourism_intent [''timing'', ''best'', ''visit''] None),
      (''Timing - City Palace optimal'', tourism_intent [''when'', ''optimal'', ''avoid''] (Some ''City Palace'')),
      (''Seasonal - peak season'', tourism_intent [''season'', ''peak'', ''october''] None),
      (''Seasonal - weather timing'', tourism_intent [''seasonal'', ''march'', ''weather''] None)]"

definition test_tourism_responses :: "string list" where
  "test_tourism_responses = map (\<lambda>tc. generate_response (snd tc) test_context) test_cases"

section \<open>Lemmas\<close>

lemma test_context_default: "test_context = default_context"
  by (simp add: test_context_def default_context_def)

end
