(* ===== verification/Spec2Isabelle.thy ===== *)
theory Spec2Isabelle
  imports Cli Chat Theme Tests
begin

text \<open>
  \<^bold>\<open>Udaipur Local Guide AI: a verification development.\<close>
  The program answers free-text questions about Udaipur. A classifier
  (\<open>QueryProcessor\<close>) turns the question into an intent, a composer
  (\<open>ResponseGenerator\<close>) fills a template from a knowledge context that
  \<open>ContextLoader\<close> supplies, and \<open>local_guide\<close> wires the three together with input
  validation and exception handlers. Two front ends call it: the Streamlit chat page of
  \<open>src/streamlit_standalone.py\<close> (which also holds the pipeline) and the shell
  \<open>main()\<close> of \<open>src/app.py\<close> (whose own \<open>local_guide\<close> imports the pipeline
  from modules under \<open>src/\<close> that the repository does not contain).
  \<open>src/theme_fix.py\<close> is a sidebar snippet with a dark-mode toggle.

  \<^bold>\<open>Theories and what they model.\<close>
  \<^item> \<open>Prelude\<close>: Python exceptions as \<open>py_exc\<close> and fallible results as
    \<open>'a res = py_exc + 'a\<close> with the bind \<open>rbind\<close> and its \<open>res_iff\<close> rules;
    \<open>str.join\<close> as \<open>join_with\<close>.
  \<^item> \<open>PyStr\<close>: \<open>str.lower\<close>, \<open>strip\<close>, \<open>split\<close>, \<open>in\<close>, \<open>title\<close> and
    \<open>isspace\<close> on Latin-1 code points (an Isabelle \<open>char\<close> is a byte; the program's
    strings are ASCII except one template, see \<open>Composer\<close>); the splitter is a
    \<open>function\<close> terminating by the length measure. Lemmas: \<open>split\<close>/\<open>join\<close>
    round trip, substring search through the split words, \<open>lower\<close> commuting with
    \<open>strip\<close> and \<open>split\<close>, and \<open>is_trimmed\<close> (non-empty and fixed by \<open>strip\<close>).
  \<^item> \<open>PyVal\<close>: JSON-like values \<open>pyval\<close> for the \<open>Dict[str, Any]\<close> context and
    \<open>dict.get\<close>, \<open>d[k]\<close>, \<open>keys()\<close>, iteration, truth, \<open>str()\<close>/\<open>repr()\<close> and
    \<open>max(key=)\<close>, each raising what Python raises on a value of the wrong type.
  \<^item> \<open>Classifier\<close> (\<open>streamlit_standalone.py\<close> 84--200): \<open>QueryIntent\<close> as the record
    \<open>query_intent\<close>, the marker tables, \<open>determine_category\<close>,
    \<open>extract_location\<close>, \<open>extract_time_context\<close>, \<open>process_query\<close>. The abstract
    choice \<open>first_max_category\<close> (first maximal category in table order) is refined by
    \<open>determine_category\<close>.
  \<^item> \<open>Composer\<close> (202--283): one strategy per category returning \<open>string res\<close>,
    each f-string a template definition, \<open>dispatch_response\<close>, and
    \<open>generate_response\<close> with its catch-all apology. \<open>wf_context\<close> is the
    specification's shape of a context (any topic or field may be absent). The degree sign
    of line 267 is stored mis-encoded as \<open>U+00AC U+221E\<close>; the code point above 255
    is modelled by the non-whitespace character \<open>infinity_sign\<close>, which no operation
    inspects.
  \<^item> \<open>Guide\<close>: \<open>ContextLoader\<close> (93--142) as \<open>load_context\<close> on a
    \<open>file_state\<close>; the standalone \<open>local_guide\<close> (286--322); \<open>src/app.py\<close>'s
    \<open>local_guide\<close> (13--74) as \<open>app_local_guide\<close>, parameterised by the outcome
    \<open>load_outcome\<close> of the absent \<open>src/context_loader.py\<close> (modelled from the
    specification) and using the standalone classifier and composer, which the
    specification describes as the same components.
  \<^item> \<open>Cli\<close>: \<open>main()\<close> of \<open>src/app.py\<close> (77--142) as \<open>cli_loop\<close> over a list of
    input events (a line, EOF, an interrupt, another exception) producing output events,
    stated over any answering function and instantiated with \<open>app_local_guide\<close>.
  \<^item> \<open>Chat\<close>: the chat page (23--27, 372--463). The state is
    \<open>st.session_state\<close> as the record \<open>session\<close>; one script run under one
    interaction is \<open>page_run\<close>; reruns are the inductive \<open>page_step\<close> and the
    sessions reachable from the first run are \<open>page_reachable\<close>. The conversation
    display (449--464) renders each message into its markup, \<open>conversation_view\<close>.
  \<^item> \<open>Tests\<close>: the manual script \<open>src/test_tourism_implementation.py\<close>, its
    sample context and ten tourism intents, with the list of responses it prints.
  \<^item> \<open>Theme\<close>: \<open>src/theme_fix.py\<close> (9--21) as \<open>theme_run\<close>, and over a
    sequence of interactions, each rerun included, as \<open>theme_session\<close>.
  \<^item> This theory imports the components and holds this overview; the properties
    are proved in the component theories, next to the definitions they are about.

  \<^bold>\<open>What is proved.\<close> The entry point always answers with a non-empty trimmed text,
  for every argument and file state, and for a non-blank question it is exactly the
  composer's answer to the classified question on the built-in context; answers ignore
  case. The category is the first maximal one in table order, \<open>general\<close> exactly when
  no marker occurs, and a question containing \<open>weather\<close> scores the food marker
  \<open>eat\<close>; the reported place is the first of the table that occurs, and none is
  reported exactly when no place occurs; the keywords round-trip through
  \<open>join\<close>/\<open>split\<close>. On every context of the documented shape no strategy raises,
  and a topic of the wrong type is converted to the apology; a recognised location takes
  priority over the transport and season branches, a missing \<open>peak_times\<close> makes the
  location irrelevant, a missing phrase meaning is formatted into the template as the empty
  string, and the time context never changes an answer. The shell refines an
  event-by-event description, says goodbye once and last, and prints only trimmed answers
  to real questions. Every reachable chat session holds whole question/answer exchanges
  (rule induction over \<open>page_reachable\<close>), and its history is the non-blank questions
  since the last clear; from every reachable session a non-blank question is answered
  in one run; on the page that calls \<open>local_guide\<close> every question kept is
  non-blank and every answer trimmed, and a question reaches the page's markup
  unescaped. The theme toggle's rerun settles after one run, and over any sequence of
  picks it ends in the last picked mode, applying the theme once per change.

  \<^bold>\<open>Bounds and termination.\<close> Every definition is structural recursion or, for
  \<open>py_split\<close>, a \<open>function\<close> with a length measure, so every operation is total and
  no fuel is needed. The shell and the page run over a finite list of events: a finite
  prefix of a session, after which the program waits for input.

  \<^bold>\<open>Not modelled.\<close> Page layout and styling (CSS, headers, sidebar and expander
  markdown, \<open>st.set_page_config\<close>), which holds no state and no logic; the
  emoji of the shell's texts (outside Latin-1; the outputs are constructors per
  \<open>print\<close> group); Streamlit's widget-state rules for the text box
  (its content is part of the interaction); an interrupt while an answer is computed;
  \<open>apply_theme()\<close>, which the repository does not define, and the static sidebar
  text of \<open>src/theme_fix.py\<close>.
\<close>

end
